theory Spec2Isabelle
  imports Complex_Main "HOL-Library.Word"
begin

section \<open>Alphascape: the OpenGL bootstrap programs\<close>

text \<open>
  The repository holds two near-duplicate programs: \<^verbatim>\<open>src/main.cpp\<close> (one white
  triangle, drawn with \<^verbatim>\<open>glDrawArrays\<close>) and \<^verbatim>\<open>src/unnamed/part_000\<close> (two quads,
  drawn with \<^verbatim>\<open>glDrawElements\<close>, coloured by a uniform that follows the clock).
  Both are a single \<^verbatim>\<open>main\<close> that talks to GLFW, GLEW and OpenGL, plus two callbacks.

  The libraries are not part of the repository. They are modelled as an explicit
  context record that every call takes and returns. The record holds the part of
  the library state the programs can observe or change, and a log of every library
  call in the order the program issued it. What the driver, the clock and the user
  decide (compile and link outcomes, uniform locations, the time, the input events)
  is an input of the model.

  Definitions that differ between the two files end in \<open>_main_cpp\<close> or
  \<open>_part_000\<close>; code that is the same in both files is modelled once.
\<close>

subsection \<open>Library constants and types\<close>

text \<open>
  \<^verbatim>\<open>int\<close>, \<^verbatim>\<open>GLint\<close>, \<^verbatim>\<open>GLsizei\<close> and \<^verbatim>\<open>GLuint\<close> are 32 bits wide; a conversion between
  them keeps the bit pattern, so one word type serves for all of them.
  Object names (\<^verbatim>\<open>GLuint\<close> handles) are natural numbers, 0 being the null name.
\<close>

type_synonym w32 = "32 word"
type_synonym name = nat

text \<open>
  \<^verbatim>\<open>GLfloat\<close> is the IEEE binary32 format: 24 significant bits, the smallest step
  \<open>2 powi - 149\<close>. A \<^verbatim>\<open>GLfloat\<close> or \<^verbatim>\<open>double\<close> value is modelled as the real number
  it stands for. \<open>to_float\<close> rounds a real number to the nearest binary32 value,
  ties to the even significand: it is what a cast to \<^verbatim>\<open>float\<close>, a \<^verbatim>\<open>float\<close> literal
  and each \<^verbatim>\<open>float\<close> operation do to the exact value. \<open>float_ulp x\<close> is the step
  between the binary32 values around \<open>x\<close>. Infinities and NaN are not modelled:
  \<open>to_float\<close> rounds a magnitude of \<open>2 powi 128\<close> or more as if the exponent had no
  upper end. No value of the two programs comes near it.
\<close>

definition float_exponent :: "real \<Rightarrow> int" where
  "float_exponent x = max (\<lfloor>log 2 \<bar>x\<bar>\<rfloor> - 23) (- 149)"

definition float_ulp :: "real \<Rightarrow> real" where
  "float_ulp x = 2 powi float_exponent x"

definition round_even :: "real \<Rightarrow> int" where
  "round_even y =
     (if y - of_int \<lfloor>y\<rfloor> < 1 / 2 then \<lfloor>y\<rfloor>
      else if 1 / 2 < y - of_int \<lfloor>y\<rfloor> then \<lfloor>y\<rfloor> + 1
      else if even \<lfloor>y\<rfloor> then \<lfloor>y\<rfloor> else \<lfloor>y\<rfloor> + 1)"

definition to_float :: "real \<Rightarrow> real" where
  "to_float x = (if x = 0 then 0 else of_int (round_even (x / float_ulp x)) * float_ulp x)"

text \<open>Values of \<^verbatim>\<open>glfw3.h\<close> and \<^verbatim>\<open>glew.h\<close>.\<close>

definition GLFW_KEY_ESCAPE :: w32 where "GLFW_KEY_ESCAPE = 256"
definition GLFW_RELEASE :: w32 where "GLFW_RELEASE = 0"
definition GLFW_PRESS :: w32 where "GLFW_PRESS = 1"
definition GLFW_REPEAT :: w32 where "GLFW_REPEAT = 2"
definition GLFW_OPENGL_CORE_PROFILE :: w32 where "GLFW_OPENGL_CORE_PROFILE = 0x00032001"
definition GL_TRUE :: w32 where "GL_TRUE = 1"
definition GL_FALSE :: w32 where "GL_FALSE = 0"

text \<open>\<^verbatim>\<open>sizeof(GLfloat)\<close> and \<^verbatim>\<open>sizeof(GLuint)\<close>: both types are 32 bits by the OpenGL specification.\<close>

definition sizeof_GLfloat :: nat where "sizeof_GLfloat = 4"
definition sizeof_GLuint :: nat where "sizeof_GLuint = 4"

datatype window_hint =
    GLFW_CONTEXT_VERSION_MAJOR | GLFW_CONTEXT_VERSION_MINOR
  | GLFW_OPENGL_PROFILE | GLFW_RESIZABLE

datatype shader_type = GL_VERTEX_SHADER | GL_FRAGMENT_SHADER
datatype buffer_target = GL_ARRAY_BUFFER | GL_ELEMENT_ARRAY_BUFFER
datatype buffer_usage = GL_STATIC_DRAW
datatype primitive_mode = GL_TRIANGLES
datatype data_type = GL_FLOAT | GL_UNSIGNED_INT
datatype clear_bit = GL_COLOR_BUFFER_BIT | GL_DEPTH_BUFFER_BIT | GL_STENCIL_BUFFER_BIT
datatype status_query = GL_COMPILE_STATUS | GL_LINK_STATUS

subsection \<open>The log of library calls\<close>

text \<open>
  One constructor per library function the programs call, with the arguments that
  matter. The window argument is left out: there is one window.
\<close>

datatype (plugins only: code) call =
    GlfwInit
  | GlfwWindowHint window_hint w32
  | GlfwCreateWindow w32 w32 string
  | GlfwMakeContextCurrent
  | GlfwSetKeyCallback
  | GlfwSetWindowSizeCallback
  | GlewInit
  | GlfwWindowShouldClose
  | GlfwSetWindowShouldClose w32
  | GlfwPollEvents
  | GlfwGetFramebufferSize
  | GlfwGetTime
  | GlfwSwapBuffers
  | GlfwTerminate
  | GlViewport w32 w32 w32 w32
  | GlCreateShader shader_type
  | GlShaderSource name string
  | GlCompileShader name
  | GlGetShaderiv name status_query
  | GlGetShaderInfoLog name nat
  | GlCreateProgram
  | GlAttachShader name name
  | GlLinkProgram name
  | GlGetProgramiv name status_query
  | GlGetProgramInfoLog name nat
  | GlDeleteShader name
  | GlGenVertexArrays nat
  | GlGenBuffers nat
  | GlBindVertexArray name
  | GlBindBuffer buffer_target name
  | GlBufferData buffer_target nat buffer_usage
  | GlVertexAttribPointer nat nat data_type w32 nat nat
  | GlEnableVertexAttribArray nat
  | GlGetUniformLocation name string
  | GlUseProgram name
  | GlUniform4f int real real real real
  | GlClearColor real real real real
  | GlClear "clear_bit list"
  | GlDrawArrays primitive_mode nat nat
  | GlDrawElements primitive_mode nat data_type nat
  | GlDeleteVertexArrays name
  | GlDeleteBuffers name

subsection \<open>The context\<close>

text \<open>
  A shader object as the driver keeps it: its stage, the source last given to it,
  and the outcome of its last compilation. A program object: the shaders attached
  to it and the outcome of its last link.
\<close>

record shader_obj =
  sh_type :: shader_type
  sh_source :: string
  sh_status :: bool
  sh_log :: string

record program_obj =
  pr_attached :: "name list"
  pr_status :: bool
  pr_log :: string

text \<open>
  The context: the program's global variables (\<open>WIDTH\<close>, \<open>HEIGHT\<close>,
  \<open>lastFrameTime\<close>, \<open>glewExperimental\<close>), what it wrote to \<^verbatim>\<open>cout\<close>, the window
  (close flag, framebuffer size), and the OpenGL state. The four name tables hold
  the objects the program created and has not passed to a delete call.
  \<open>element_binding\<close> is the element-array binding of each vertex array object
  (it is vertex-array state in OpenGL, not context state).
\<close>

record ctx =
  calls :: "call list"
  cout :: string
  WIDTH :: w32
  HEIGHT :: w32
  lastFrameTime :: real
  glewExperimental :: w32
  should_close :: bool
  framebuffer_size :: "w32 \<times> w32"
  fresh_name :: name
  shader_objs :: "name \<rightharpoonup> shader_obj"
  program_objs :: "name \<rightharpoonup> program_obj"
  vertex_arrays :: "name set"
  buffers :: "name set"
  vertex_array_binding :: name
  array_buffer_binding :: name
  element_binding :: "name \<Rightarrow> name"
  current_program :: name
  viewport :: "w32 \<times> w32 \<times> w32 \<times> w32"
  clear_color :: "real \<times> real \<times> real \<times> real"

definition issue :: "call \<Rightarrow> ctx \<Rightarrow> ctx" where
  "issue c s = s\<lparr>calls := calls s @ [c]\<rparr>"

subsection \<open>The GLFW and OpenGL calls of the callbacks\<close>

definition glfwSetWindowShouldClose :: "w32 \<Rightarrow> ctx \<Rightarrow> ctx" where
  "glfwSetWindowShouldClose v s = (issue (GlfwSetWindowShouldClose v) s)\<lparr>should_close := (v \<noteq> 0)\<rparr>"

definition glfwGetFramebufferSize :: "ctx \<Rightarrow> (w32 \<times> w32) \<times> ctx" where
  "glfwGetFramebufferSize s = (framebuffer_size s, issue GlfwGetFramebufferSize s)"

definition glViewport :: "w32 \<Rightarrow> w32 \<Rightarrow> w32 \<Rightarrow> w32 \<Rightarrow> ctx \<Rightarrow> ctx" where
  "glViewport x y w h s = (issue (GlViewport x y w h) s)\<lparr>viewport := (x, y, w, h)\<rparr>"

subsection \<open>The callbacks (the same in both files)\<close>

text \<open>
  \<^verbatim>\<open>key_callback(window, key, scancode, action, mode)\<close>: an escape press asks the
  window to close; everything else is ignored.
\<close>

definition key_callback :: "w32 \<Rightarrow> w32 \<Rightarrow> w32 \<Rightarrow> w32 \<Rightarrow> ctx \<Rightarrow> ctx" where
  "key_callback key scancode action mode s =
     (if key = GLFW_KEY_ESCAPE \<and> action = GLFW_PRESS
      then glfwSetWindowShouldClose GL_TRUE s
      else s)"

text \<open>
  \<^verbatim>\<open>window_size_callback(window, width, height)\<close>: stores the reported size in
  the globals, then overwrites its own parameters with the framebuffer size and
  sets the viewport from that.
\<close>

definition window_size_callback :: "w32 \<Rightarrow> w32 \<Rightarrow> ctx \<Rightarrow> ctx" where
  "window_size_callback width height s =
     (let s1 = s\<lparr>WIDTH := width\<rparr>;
          s2 = s1\<lparr>HEIGHT := height\<rparr>;
          ((width', height'), s3) = glfwGetFramebufferSize s2
      in glViewport 0 0 width' height' s3)"

subsection \<open>What the driver and the C library decide\<close>

text \<open>
  The outcome of a compilation (status and full diagnostic log) for a stage and a
  source text, the outcome of a link for the shader objects attached, the location
  of a uniform name in a program object (\<open>-1\<close> when the name is not an active
  uniform), the framebuffer size of the window when it is created, and what the
  C library's \<^verbatim>\<open>sin\<close> returns for a \<^verbatim>\<open>float\<close> argument.
\<close>

record driver =
  compile_outcome :: "shader_type \<Rightarrow> string \<Rightarrow> bool \<times> string"
  link_outcome :: "shader_obj list \<Rightarrow> bool \<times> string"
  uniform_location :: "program_obj \<Rightarrow> string \<Rightarrow> int"
  created_framebuffer :: "w32 \<times> w32"
  libm_sin :: "real \<Rightarrow> real"

text \<open>
  What happens between two polls: key events, window-size events (with the
  framebuffer size the window has at that moment) and the user closing the window,
  for which GLFW sets the close flag itself. A frame's input is the events its
  poll delivers and the value \<^verbatim>\<open>glfwGetTime\<close> returns in it.
\<close>

datatype event =
    Key w32 w32 w32 w32
  | WindowSize w32 w32 w32 w32
  | WindowClose

record frame_input =
  events :: "event list"
  now :: real

subsection \<open>GLFW and GLEW calls\<close>

definition glfwInit :: "ctx \<Rightarrow> ctx" where
  "glfwInit s = issue GlfwInit s"

definition glfwWindowHint :: "window_hint \<Rightarrow> w32 \<Rightarrow> ctx \<Rightarrow> ctx" where
  "glfwWindowHint h v s = issue (GlfwWindowHint h v) s"

definition glfwCreateWindow :: "driver \<Rightarrow> w32 \<Rightarrow> w32 \<Rightarrow> string \<Rightarrow> ctx \<Rightarrow> ctx" where
  "glfwCreateWindow d w h title s =
     (issue (GlfwCreateWindow w h title) s)
       \<lparr>should_close := False, framebuffer_size := created_framebuffer d\<rparr>"

definition glfwMakeContextCurrent :: "ctx \<Rightarrow> ctx" where
  "glfwMakeContextCurrent s = issue GlfwMakeContextCurrent s"

definition glfwSetKeyCallback :: "ctx \<Rightarrow> ctx" where
  "glfwSetKeyCallback s = issue GlfwSetKeyCallback s"

definition glfwSetWindowSizeCallback :: "ctx \<Rightarrow> ctx" where
  "glfwSetWindowSizeCallback s = issue GlfwSetWindowSizeCallback s"

definition glewInit :: "ctx \<Rightarrow> ctx" where
  "glewInit s = issue GlewInit s"

definition glfwWindowShouldClose :: "ctx \<Rightarrow> bool \<times> ctx" where
  "glfwWindowShouldClose s = (should_close s, issue GlfwWindowShouldClose s)"

text \<open>
  \<^verbatim>\<open>glfwPollEvents\<close> runs the registered callbacks before it returns. Both
  callbacks are registered before the first poll.
\<close>

fun deliver :: "event \<Rightarrow> ctx \<Rightarrow> ctx" where
  "deliver (Key key scancode action mode) s = key_callback key scancode action mode s"
| "deliver (WindowSize width height fw fh) s =
     window_size_callback width height (s\<lparr>framebuffer_size := (fw, fh)\<rparr>)"
| "deliver WindowClose s = s\<lparr>should_close := True\<rparr>"

fun deliver_all :: "event list \<Rightarrow> ctx \<Rightarrow> ctx" where
  "deliver_all [] s = s"
| "deliver_all (e # es) s = deliver_all es (deliver e s)"

definition glfwPollEvents :: "event list \<Rightarrow> ctx \<Rightarrow> ctx" where
  "glfwPollEvents es s = deliver_all es (issue GlfwPollEvents s)"

definition glfwGetTime :: "real \<Rightarrow> ctx \<Rightarrow> real \<times> ctx" where
  "glfwGetTime t s = (t, issue GlfwGetTime s)"

definition glfwSwapBuffers :: "ctx \<Rightarrow> ctx" where
  "glfwSwapBuffers s = issue GlfwSwapBuffers s"

definition glfwTerminate :: "ctx \<Rightarrow> ctx" where
  "glfwTerminate s = issue GlfwTerminate s"

subsection \<open>Shader and program objects\<close>

definition glCreateShader :: "shader_type \<Rightarrow> ctx \<Rightarrow> name \<times> ctx" where
  "glCreateShader ty s =
     (fresh_name s,
      (issue (GlCreateShader ty) s)
        \<lparr>fresh_name := Suc (fresh_name s),
         shader_objs := (shader_objs s)(fresh_name s \<mapsto>
           \<lparr>sh_type = ty, sh_source = [], sh_status = False, sh_log = []\<rparr>)\<rparr>)"

definition glShaderSource :: "name \<Rightarrow> string \<Rightarrow> ctx \<Rightarrow> ctx" where
  "glShaderSource n src s =
     (issue (GlShaderSource n src) s)
       \<lparr>shader_objs :=
          (case shader_objs s n of
             None \<Rightarrow> shader_objs s
           | Some ob \<Rightarrow> (shader_objs s)(n \<mapsto> ob\<lparr>sh_source := src\<rparr>))\<rparr>"

definition glCompileShader :: "driver \<Rightarrow> name \<Rightarrow> ctx \<Rightarrow> ctx" where
  "glCompileShader d n s =
     (issue (GlCompileShader n) s)
       \<lparr>shader_objs :=
          (case shader_objs s n of
             None \<Rightarrow> shader_objs s
           | Some ob \<Rightarrow> (shader_objs s)(n \<mapsto>
               ob\<lparr>sh_status := fst (compile_outcome d (sh_type ob) (sh_source ob)),
                  sh_log := snd (compile_outcome d (sh_type ob) (sh_source ob))\<rparr>))\<rparr>"

text \<open>
  The status queries write \<^verbatim>\<open>GL_TRUE\<close> or \<^verbatim>\<open>GL_FALSE\<close> to \<^verbatim>\<open>success\<close>. For a name
  that is no object OpenGL writes nothing; the programs only ask about objects
  they have just created, and the model answers \<^verbatim>\<open>GL_FALSE\<close> otherwise.
\<close>

definition glGetShaderiv :: "name \<Rightarrow> status_query \<Rightarrow> ctx \<Rightarrow> w32 \<times> ctx" where
  "glGetShaderiv n q s =
     ((case shader_objs s n of
         None \<Rightarrow> GL_FALSE
       | Some ob \<Rightarrow> if sh_status ob then GL_TRUE else GL_FALSE),
      issue (GlGetShaderiv n q) s)"

text \<open>
  The log queries copy at most \<open>bufSize - 1\<close> characters of the log (the last
  place of the buffer holds the terminating zero).
\<close>

definition glGetShaderInfoLog :: "name \<Rightarrow> nat \<Rightarrow> ctx \<Rightarrow> string \<times> ctx" where
  "glGetShaderInfoLog n bufSize s =
     ((case shader_objs s n of
         None \<Rightarrow> []
       | Some ob \<Rightarrow> take (bufSize - 1) (sh_log ob)),
      issue (GlGetShaderInfoLog n bufSize) s)"

definition glCreateProgram :: "ctx \<Rightarrow> name \<times> ctx" where
  "glCreateProgram s =
     (fresh_name s,
      (issue GlCreateProgram s)
        \<lparr>fresh_name := Suc (fresh_name s),
         program_objs := (program_objs s)(fresh_name s \<mapsto>
           \<lparr>pr_attached = [], pr_status = False, pr_log = []\<rparr>)\<rparr>)"

definition glAttachShader :: "name \<Rightarrow> name \<Rightarrow> ctx \<Rightarrow> ctx" where
  "glAttachShader p n s =
     (issue (GlAttachShader p n) s)
       \<lparr>program_objs :=
          (case program_objs s p of
             None \<Rightarrow> program_objs s
           | Some ob \<Rightarrow> (program_objs s)(p \<mapsto> ob\<lparr>pr_attached := pr_attached ob @ [n]\<rparr>))\<rparr>"

definition glLinkProgram :: "driver \<Rightarrow> name \<Rightarrow> ctx \<Rightarrow> ctx" where
  "glLinkProgram d p s =
     (issue (GlLinkProgram p) s)
       \<lparr>program_objs :=
          (case program_objs s p of
             None \<Rightarrow> program_objs s
           | Some ob \<Rightarrow> (program_objs s)(p \<mapsto>
               ob\<lparr>pr_status := fst (link_outcome d (List.map_filter (shader_objs s) (pr_attached ob))),
                  pr_log := snd (link_outcome d (List.map_filter (shader_objs s) (pr_attached ob)))\<rparr>))\<rparr>"

definition glGetProgramiv :: "name \<Rightarrow> status_query \<Rightarrow> ctx \<Rightarrow> w32 \<times> ctx" where
  "glGetProgramiv p q s =
     ((case program_objs s p of
         None \<Rightarrow> GL_FALSE
       | Some ob \<Rightarrow> if pr_status ob then GL_TRUE else GL_FALSE),
      issue (GlGetProgramiv p q) s)"

definition glGetProgramInfoLog :: "name \<Rightarrow> nat \<Rightarrow> ctx \<Rightarrow> string \<times> ctx" where
  "glGetProgramInfoLog p bufSize s =
     ((case program_objs s p of
         None \<Rightarrow> []
       | Some ob \<Rightarrow> take (bufSize - 1) (pr_log ob)),
      issue (GlGetProgramInfoLog p bufSize) s)"

definition glDeleteShader :: "name \<Rightarrow> ctx \<Rightarrow> ctx" where
  "glDeleteShader n s = (issue (GlDeleteShader n) s)\<lparr>shader_objs := (shader_objs s)(n := None)\<rparr>"

definition glGetUniformLocation :: "driver \<Rightarrow> name \<Rightarrow> string \<Rightarrow> ctx \<Rightarrow> int \<times> ctx" where
  "glGetUniformLocation d p nm s =
     ((case program_objs s p of
         None \<Rightarrow> - 1
       | Some ob \<Rightarrow> uniform_location d ob nm),
      issue (GlGetUniformLocation p nm) s)"

definition glUseProgram :: "name \<Rightarrow> ctx \<Rightarrow> ctx" where
  "glUseProgram p s = (issue (GlUseProgram p) s)\<lparr>current_program := p\<rparr>"

definition glUniform4f :: "int \<Rightarrow> real \<Rightarrow> real \<Rightarrow> real \<Rightarrow> real \<Rightarrow> ctx \<Rightarrow> ctx" where
  "glUniform4f loc v0 v1 v2 v3 s = issue (GlUniform4f loc v0 v1 v2 v3) s"

subsection \<open>Vertex arrays, buffers and drawing\<close>

text \<open>
  \<^verbatim>\<open>glGenVertexArrays(1, &VAO)\<close> and \<^verbatim>\<open>glGenBuffers(1, &VBO)\<close>: one fresh name each.
\<close>

definition glGenVertexArrays :: "ctx \<Rightarrow> name \<times> ctx" where
  "glGenVertexArrays s =
     (fresh_name s,
      (issue (GlGenVertexArrays 1) s)
        \<lparr>fresh_name := Suc (fresh_name s),
         vertex_arrays := insert (fresh_name s) (vertex_arrays s)\<rparr>)"

definition glGenBuffers :: "ctx \<Rightarrow> name \<times> ctx" where
  "glGenBuffers s =
     (fresh_name s,
      (issue (GlGenBuffers 1) s)
        \<lparr>fresh_name := Suc (fresh_name s),
         buffers := insert (fresh_name s) (buffers s)\<rparr>)"

definition glBindVertexArray :: "name \<Rightarrow> ctx \<Rightarrow> ctx" where
  "glBindVertexArray n s = (issue (GlBindVertexArray n) s)\<lparr>vertex_array_binding := n\<rparr>"

fun glBindBuffer :: "buffer_target \<Rightarrow> name \<Rightarrow> ctx \<Rightarrow> ctx" where
  "glBindBuffer GL_ARRAY_BUFFER n s =
     (issue (GlBindBuffer GL_ARRAY_BUFFER n) s)\<lparr>array_buffer_binding := n\<rparr>"
| "glBindBuffer GL_ELEMENT_ARRAY_BUFFER n s =
     (issue (GlBindBuffer GL_ELEMENT_ARRAY_BUFFER n) s)
       \<lparr>element_binding := (element_binding s)(vertex_array_binding s := n)\<rparr>"

definition glBufferData :: "buffer_target \<Rightarrow> nat \<Rightarrow> buffer_usage \<Rightarrow> ctx \<Rightarrow> ctx" where
  "glBufferData target size_bytes usage s = issue (GlBufferData target size_bytes usage) s"

definition glVertexAttribPointer :: "nat \<Rightarrow> nat \<Rightarrow> data_type \<Rightarrow> w32 \<Rightarrow> nat \<Rightarrow> nat \<Rightarrow> ctx \<Rightarrow> ctx" where
  "glVertexAttribPointer index n ty normalized stride pointer s =
     issue (GlVertexAttribPointer index n ty normalized stride pointer) s"

definition glEnableVertexAttribArray :: "nat \<Rightarrow> ctx \<Rightarrow> ctx" where
  "glEnableVertexAttribArray index s = issue (GlEnableVertexAttribArray index) s"

definition glClearColor :: "real \<Rightarrow> real \<Rightarrow> real \<Rightarrow> real \<Rightarrow> ctx \<Rightarrow> ctx" where
  "glClearColor r g b a s = (issue (GlClearColor r g b a) s)\<lparr>clear_color := (r, g, b, a)\<rparr>"

definition glClear :: "clear_bit list \<Rightarrow> ctx \<Rightarrow> ctx" where
  "glClear bits s = issue (GlClear bits) s"

definition glDrawArrays :: "primitive_mode \<Rightarrow> nat \<Rightarrow> nat \<Rightarrow> ctx \<Rightarrow> ctx" where
  "glDrawArrays mode first count s = issue (GlDrawArrays mode first count) s"

definition glDrawElements :: "primitive_mode \<Rightarrow> nat \<Rightarrow> data_type \<Rightarrow> nat \<Rightarrow> ctx \<Rightarrow> ctx" where
  "glDrawElements mode count ty offset s = issue (GlDrawElements mode count ty offset) s"

text \<open>Deleting an object that is bound resets that binding to the null name.\<close>

definition glDeleteVertexArrays :: "name \<Rightarrow> ctx \<Rightarrow> ctx" where
  "glDeleteVertexArrays n s =
     (issue (GlDeleteVertexArrays n) s)
       \<lparr>vertex_arrays := vertex_arrays s - {n},
        vertex_array_binding := (if vertex_array_binding s = n then 0 else vertex_array_binding s)\<rparr>"

definition glDeleteBuffers :: "name \<Rightarrow> ctx \<Rightarrow> ctx" where
  "glDeleteBuffers n s =
     (issue (GlDeleteBuffers n) s)
       \<lparr>buffers := buffers s - {n},
        array_buffer_binding := (if array_buffer_binding s = n then 0 else array_buffer_binding s),
        element_binding :=
          (if element_binding s (vertex_array_binding s) = n
           then (element_binding s)(vertex_array_binding s := 0)
           else element_binding s)\<rparr>"

section \<open>The programs\<close>

text \<open>
  Each \<^verbatim>\<open>#pragma region\<close> of \<^verbatim>\<open>main\<close> is one definition, named after the region.
  The local variables of \<^verbatim>\<open>main\<close> that a later region reads (\<open>shaderProgram\<close>,
  \<open>VAO\<close>, \<open>VBO\<close>, \<open>EBO\<close>) are results of the region that sets them and parameters
  of the regions that read them.
\<close>

subsection \<open>Global variables and constants\<close>

definition vertexShaderSource_main_cpp :: string where
  "vertexShaderSource_main_cpp =
     ''#version 330 core\<newline>'' @
     ''layout (location = 0) in vec3 position;\<newline>'' @
     ''void main()\<newline>'' @
     ''{\<newline>'' @
     ''gl_Position = vec4(position.x, position.y, position.z, 1.0);\<newline>'' @
     ''}''"

definition fragmentShaderSource_main_cpp :: string where
  "fragmentShaderSource_main_cpp =
     ''#version 330 core\<newline>'' @
     ''out vec4 color;\<newline>'' @
     ''void main()\<newline>'' @
     ''{\<newline>'' @
     ''color = vec4(1.0f, 1.0f, 1.0f, 1.0f);\<newline>'' @
     ''}\<newline>''"

definition vertexShaderSource_part_000 :: string where
  "vertexShaderSource_part_000 =
     ''#version 330 core\<newline>'' @
     ''layout(location = 0) in vec3 position;\<newline>'' @
     ''void main()\<newline>'' @
     ''{\<newline>'' @
     ''gl_Position = vec4(position, 1.0);\<newline>'' @
     ''}\<newline>''"

definition fragmentShaderSource_part_000 :: string where
  "fragmentShaderSource_part_000 =
     ''#version 330 core\<newline>'' @
     ''out vec4 color;\<newline>'' @
     ''uniform vec4 ourColor;'' @
     ''void main()\<newline>'' @
     ''{\<newline>'' @
     ''color = ourColor;\<newline>'' @
     ''}\<newline>''"

text \<open>
  The context at the start of \<^verbatim>\<open>main\<close>: the globals as initialised in the file,
  nothing written, no call issued, no object, nothing bound. Names are handed out
  from 1 on.
\<close>

definition start :: "w32 \<Rightarrow> w32 \<Rightarrow> ctx" where
  "start w h =
     \<lparr>calls = [], cout = [], WIDTH = w, HEIGHT = h, lastFrameTime = 0,
      glewExperimental = GL_FALSE, should_close = False, framebuffer_size = (0, 0),
      fresh_name = 1, shader_objs = Map.empty, program_objs = Map.empty,
      vertex_arrays = {}, buffers = {}, vertex_array_binding = 0,
      array_buffer_binding = 0, element_binding = (\<lambda>_. 0), current_program = 0,
      viewport = (0, 0, 0, 0), clear_color = (0, 0, 0, 0)\<rparr>"

definition start_main_cpp :: ctx where
  "start_main_cpp = start 640 480"

definition start_part_000 :: ctx where
  "start_part_000 = start 512 512"

subsection \<open>Region: Initialise GLFW and GLEW (the same in both files)\<close>

definition initialise :: "driver \<Rightarrow> ctx \<Rightarrow> ctx" where
  "initialise d s0 =
     (let s1 = glfwInit s0;
          s2 = glfwWindowHint GLFW_CONTEXT_VERSION_MAJOR 3 s1;
          s3 = glfwWindowHint GLFW_CONTEXT_VERSION_MINOR 3 s2;
          s4 = glfwWindowHint GLFW_OPENGL_PROFILE GLFW_OPENGL_CORE_PROFILE s3;
          s5 = glfwWindowHint GLFW_RESIZABLE GL_TRUE s4;
          s6 = glfwCreateWindow d (WIDTH s5) (HEIGHT s5) ''Alphascape'' s5;
          s7 = glfwMakeContextCurrent s6;
          s8 = glfwSetKeyCallback s7;
          s9 = glfwSetWindowSizeCallback s8;
          s10 = s9\<lparr>glewExperimental := GL_TRUE\<rparr>;
          s11 = glewInit s10
      in glViewport 0 0 (WIDTH s11) (HEIGHT s11) s11)"

subsection \<open>Region: Compile Shaders (the same in both files, up to the source texts)\<close>

text \<open>
  \<^verbatim>\<open>cout << "ERROR::...\n" << infoLog << endl\<close>: the heading with its line break,
  the log, a line break.
\<close>

definition report :: "string \<Rightarrow> string \<Rightarrow> ctx \<Rightarrow> ctx" where
  "report heading infoLog s = s\<lparr>cout := cout s @ heading @ ''\<newline>'' @ infoLog @ ''\<newline>''\<rparr>"

text \<open>
  The vertex block and the fragment block of the region are the same code; they
  differ in the stage, the source text and the heading of the message. Each
  returns the name it stored in \<open>vertexShader\<close> or \<open>fragmentShader\<close>.
\<close>

definition compile_stage :: "driver \<Rightarrow> shader_type \<Rightarrow> string \<Rightarrow> string \<Rightarrow> ctx \<Rightarrow> name \<times> ctx" where
  "compile_stage d ty heading shaderSource s0 =
     (let (shader, s1) = glCreateShader ty s0;
          s2 = glShaderSource shader shaderSource s1;
          s3 = glCompileShader d shader s2;
          (success, s4) = glGetShaderiv shader GL_COMPILE_STATUS s3;
          s5 = (if success = 0
                then (let (infoLog, s) = glGetShaderInfoLog shader 512 s4
                      in report heading infoLog s)
                else s4)
      in (shader, s5))"

text \<open>The block under \<^verbatim>\<open>// Link the shaders.\<close>, up to the report of a failed link.\<close>

definition link_shaders :: "driver \<Rightarrow> name \<Rightarrow> name \<Rightarrow> ctx \<Rightarrow> name \<times> ctx" where
  "link_shaders d vertexShader fragmentShader s0 =
     (let (shaderProgram, s1) = glCreateProgram s0;
          s2 = glAttachShader shaderProgram vertexShader s1;
          s3 = glAttachShader shaderProgram fragmentShader s2;
          s4 = glLinkProgram d shaderProgram s3;
          (success, s5) = glGetProgramiv shaderProgram GL_LINK_STATUS s4;
          s6 = (if success = 0
                then (let (infoLog, s) = glGetProgramInfoLog shaderProgram 512 s5
                      in report ''ERROR::SHADER::PROGRAM::LINKING_FAILED'' infoLog s)
                else s5)
      in (shaderProgram, s6))"

text \<open>
  The whole region. No branch of it leaves the region early: a failed
  compilation or link is reported and the next statement runs.
\<close>

definition compile_shaders :: "driver \<Rightarrow> string \<Rightarrow> string \<Rightarrow> ctx \<Rightarrow> name \<times> ctx" where
  "compile_shaders d vertexShaderSource fragmentShaderSource s0 =
     (let (vertexShader, s1) =
             compile_stage d GL_VERTEX_SHADER ''ERROR::SHADER::VERTEX::COMPILATION_FAILED''
               vertexShaderSource s0;
          (fragmentShader, s2) =
             compile_stage d GL_FRAGMENT_SHADER ''ERROR::SHADER::FRAGMENT::COMPILATION_FAILED''
               fragmentShaderSource s1;
          (shaderProgram, s3) = link_shaders d vertexShader fragmentShader s2;
          s4 = glDeleteShader vertexShader s3;
          s5 = glDeleteShader fragmentShader s4
      in (shaderProgram, s5))"

subsection \<open>Region: VBO, VAO, Attribute Pointers\<close>

definition vertices_main_cpp :: "real list" where
  "vertices_main_cpp = map to_float
     [- 0.5, - 0.5, 0.0,
      0.5, - 0.5, 0.0,
      0.0, 0.5, 0.0]"

definition vertices_part_000 :: "real list" where
  "vertices_part_000 = map to_float
     [0.2, 0.2, 0.0,
      0.2, - 0.8, 0.0,
      - 0.8, - 0.8, 0.0,
      - 0.8, 0.2, 0.0,
      0.8, 0.8, 0.0,
      0.8, - 0.2, 0.0,
      - 0.2, - 0.2, 0.0,
      - 0.2, 0.8, 0.0]"

definition indices_part_000 :: "w32 list" where
  "indices_part_000 =
     [0, 1, 3,
      1, 2, 3,
      4, 5, 7,
      5, 6, 7]"

text \<open>\<^verbatim>\<open>sizeof\<close> of an array is its element count times the element size.\<close>

definition sizeof_vertices_main_cpp :: nat where
  "sizeof_vertices_main_cpp = length vertices_main_cpp * sizeof_GLfloat"

definition sizeof_vertices_part_000 :: nat where
  "sizeof_vertices_part_000 = length vertices_part_000 * sizeof_GLfloat"

definition sizeof_indices_part_000 :: nat where
  "sizeof_indices_part_000 = length indices_part_000 * sizeof_GLuint"

definition setup_buffers_main_cpp :: "ctx \<Rightarrow> (name \<times> name) \<times> ctx" where
  "setup_buffers_main_cpp s0 =
     (let (VAO, s1) = glGenVertexArrays s0;
          (VBO, s2) = glGenBuffers s1;
          s3 = glBindVertexArray VAO s2;
          s4 = glBindBuffer GL_ARRAY_BUFFER VBO s3;
          s5 = glBufferData GL_ARRAY_BUFFER sizeof_vertices_main_cpp GL_STATIC_DRAW s4;
          s6 = glVertexAttribPointer 0 3 GL_FLOAT GL_FALSE (3 * sizeof_GLfloat) 0 s5;
          s7 = glEnableVertexAttribArray 0 s6;
          s8 = glBindBuffer GL_ARRAY_BUFFER 0 s7;
          s9 = glBindVertexArray 0 s8
      in ((VAO, VBO), s9))"

definition setup_buffers_part_000 :: "ctx \<Rightarrow> (name \<times> name \<times> name) \<times> ctx" where
  "setup_buffers_part_000 s0 =
     (let (VAO, s1) = glGenVertexArrays s0;
          (VBO, s2) = glGenBuffers s1;
          (EBO, s3) = glGenBuffers s2;
          s4 = glBindVertexArray VAO s3;
          s5 = glBindBuffer GL_ARRAY_BUFFER VBO s4;
          s6 = glBufferData GL_ARRAY_BUFFER sizeof_vertices_part_000 GL_STATIC_DRAW s5;
          s7 = glBindBuffer GL_ELEMENT_ARRAY_BUFFER EBO s6;
          s8 = glBufferData GL_ELEMENT_ARRAY_BUFFER sizeof_indices_part_000 GL_STATIC_DRAW s7;
          s9 = glVertexAttribPointer 0 3 GL_FLOAT GL_FALSE (3 * sizeof_GLfloat) 0 s8;
          s10 = glEnableVertexAttribArray 0 s9;
          s11 = glBindBuffer GL_ARRAY_BUFFER 0 s10;
          s12 = glBindBuffer GL_ELEMENT_ARRAY_BUFFER EBO s11;
          s13 = glBindVertexArray 0 s12
      in ((VAO, VBO, EBO), s13))"

subsection \<open>Region: Main Loop\<close>

text \<open>The body of the \<^verbatim>\<open>while\<close> loop of \<^verbatim>\<open>src/main.cpp\<close>, for the events its poll delivers.\<close>

definition loop_body_main_cpp :: "name \<Rightarrow> name \<Rightarrow> event list \<Rightarrow> ctx \<Rightarrow> ctx" where
  "loop_body_main_cpp shaderProgram VAO es s0 =
     (let s1 = glfwPollEvents es s0;
          s2 = glClearColor (to_float 0.529) (to_float 0.808) (to_float 0.980) 1.0 s1;
          s3 = glClear [GL_COLOR_BUFFER_BIT, GL_DEPTH_BUFFER_BIT, GL_STENCIL_BUFFER_BIT] s2;
          s4 = glUseProgram shaderProgram s3;
          s5 = glBindVertexArray VAO s4;
          s6 = glDrawArrays GL_TRIANGLES 0 3 s5;
          s7 = glBindVertexArray 0 s6
      in glfwSwapBuffers s7)"

text \<open>
  \<^verbatim>\<open>(float)(sin(timeValue) / 2.0f) + 0.5f\<close>: the library's sine of the \<^verbatim>\<open>float\<close>
  \<open>timeValue\<close>, halved (exactly, in \<^verbatim>\<open>float\<close> or in \<^verbatim>\<open>double\<close>) and cast to
  \<^verbatim>\<open>float\<close>, then a \<^verbatim>\<open>float\<close> addition.
\<close>

definition greenValue :: "driver \<Rightarrow> real \<Rightarrow> real" where
  "greenValue d timeValue = to_float (to_float (libm_sin d timeValue / 2.0) + 0.5)"

text \<open>
  The body of the loop of \<^verbatim>\<open>src/unnamed/part_000\<close>. \<open>timeValue\<close> is the clock's
  \<^verbatim>\<open>double\<close> cast to \<^verbatim>\<open>float\<close>. \<open>timeSinceLastFrame\<close> is computed and never read.
\<close>

definition loop_body_part_000 :: "driver \<Rightarrow> name \<Rightarrow> name \<Rightarrow> frame_input \<Rightarrow> ctx \<Rightarrow> ctx" where
  "loop_body_part_000 d shaderProgram VAO f s0 =
     (let s1 = glfwPollEvents (events f) s0;
          (t, s2) = glfwGetTime (now f) s1;
          timeValue = to_float t;
          timeSinceLastFrame = to_float (timeValue - lastFrameTime s2);
          s3 = s2\<lparr>lastFrameTime := timeValue\<rparr>;
          (vertexColorLocation, s4) = glGetUniformLocation d shaderProgram ''ourColor'' s3;
          s5 = glUseProgram shaderProgram s4;
          s6 = glUniform4f vertexColorLocation
                 (greenValue d timeValue) (greenValue d timeValue) (greenValue d timeValue)
                 1.0 s5;
          s7 = glClearColor (to_float 0.529) (to_float 0.808) (to_float 0.980) 1.0 s6;
          s8 = glClear [GL_COLOR_BUFFER_BIT, GL_DEPTH_BUFFER_BIT, GL_STENCIL_BUFFER_BIT] s7;
          s9 = glUseProgram shaderProgram s8;
          s10 = glBindVertexArray VAO s9;
          s11 = glDrawElements GL_TRIANGLES sizeof_indices_part_000 GL_UNSIGNED_INT 0 s10;
          s12 = glBindVertexArray 0 s11
      in glfwSwapBuffers s12)"

text \<open>
  The \<^verbatim>\<open>while (!glfwWindowShouldClose(window))\<close> loops. The list holds the input
  of the frames to come. The loop returns \<open>Some\<close> context when it finds the
  close flag set. When the list ends with the flag still unset the loop is still
  running, and the result is \<open>None\<close>.
\<close>

fun main_loop_main_cpp :: "name \<Rightarrow> name \<Rightarrow> event list list \<Rightarrow> ctx \<Rightarrow> ctx option" where
  "main_loop_main_cpp shaderProgram VAO [] s =
     (let r = glfwWindowShouldClose s in if fst r then Some (snd r) else None)"
| "main_loop_main_cpp shaderProgram VAO (es # rest) s =
     (let r = glfwWindowShouldClose s in
      if fst r then Some (snd r)
      else main_loop_main_cpp shaderProgram VAO rest
             (loop_body_main_cpp shaderProgram VAO es (snd r)))"

fun main_loop_part_000 :: "driver \<Rightarrow> name \<Rightarrow> name \<Rightarrow> frame_input list \<Rightarrow> ctx \<Rightarrow> ctx option" where
  "main_loop_part_000 d shaderProgram VAO [] s =
     (let r = glfwWindowShouldClose s in if fst r then Some (snd r) else None)"
| "main_loop_part_000 d shaderProgram VAO (f # rest) s =
     (let r = glfwWindowShouldClose s in
      if fst r then Some (snd r)
      else main_loop_part_000 d shaderProgram VAO rest
             (loop_body_part_000 d shaderProgram VAO f (snd r)))"

subsection \<open>Region: Clean Up (the same in both files)\<close>

definition clean_up :: "name \<Rightarrow> name \<Rightarrow> ctx \<Rightarrow> ctx" where
  "clean_up VAO VBO s0 =
     (let s1 = glDeleteVertexArrays VAO s0;
          s2 = glDeleteBuffers VBO s1
      in glfwTerminate s2)"

subsection \<open>\<^verbatim>\<open>main\<close>\<close>

text \<open>
  The state in which the loop is entered, with the locals \<^verbatim>\<open>main\<close> holds
  then, and \<^verbatim>\<open>main\<close> itself: its return value (always 0) and the final context,
  or \<open>None\<close> while the loop runs.
\<close>

definition before_loop_main_cpp :: "driver \<Rightarrow> (name \<times> name \<times> name) \<times> ctx" where
  "before_loop_main_cpp d =
     (let s1 = initialise d start_main_cpp;
          (shaderProgram, s2) =
             compile_shaders d vertexShaderSource_main_cpp fragmentShaderSource_main_cpp s1;
          ((VAO, VBO), s3) = setup_buffers_main_cpp s2
      in ((shaderProgram, VAO, VBO), s3))"

definition main_main_cpp :: "driver \<Rightarrow> event list list \<Rightarrow> (w32 \<times> ctx) option" where
  "main_main_cpp d polls =
     (let ((shaderProgram, VAO, VBO), s3) = before_loop_main_cpp d
      in case main_loop_main_cpp shaderProgram VAO polls s3 of
           None \<Rightarrow> None
         | Some s4 \<Rightarrow> Some (0, clean_up VAO VBO s4))"

definition before_loop_part_000 :: "driver \<Rightarrow> (name \<times> name \<times> name \<times> name) \<times> ctx" where
  "before_loop_part_000 d =
     (let s1 = initialise d start_part_000;
          (shaderProgram, s2) =
             compile_shaders d vertexShaderSource_part_000 fragmentShaderSource_part_000 s1;
          ((VAO, VBO, EBO), s3) = setup_buffers_part_000 s2
      in ((shaderProgram, VAO, VBO, EBO), s3))"

definition main_part_000 :: "driver \<Rightarrow> frame_input list \<Rightarrow> (w32 \<times> ctx) option" where
  "main_part_000 d frames =
     (let ((shaderProgram, VAO, VBO, EBO), s3) = before_loop_part_000 d
      in case main_loop_part_000 d shaderProgram VAO frames s3 of
           None \<Rightarrow> None
         | Some s4 \<Rightarrow> Some (0, clean_up VAO VBO s4))"

section \<open>Vocabulary of the properties\<close>

text \<open>
  An event that asks the window to close: the escape key pressed (through
  \<open>key_callback\<close>) or the user closing the window. A frame requests the close
  when its poll delivers such an event.
\<close>

fun closes :: "event \<Rightarrow> bool" where
  "closes (Key key scancode action mode) = (key = GLFW_KEY_ESCAPE \<and> action = GLFW_PRESS)"
| "closes (WindowSize width height fw fh) = False"
| "closes WindowClose = True"

definition close_requested :: "frame_input \<Rightarrow> bool" where
  "close_requested f = list_ex closes (events f)"

text \<open>The library calls the two callbacks make, and the calls of the clean-up region.\<close>

fun callback_call :: "call \<Rightarrow> bool" where
  "callback_call (GlfwSetWindowShouldClose v) = True"
| "callback_call GlfwGetFramebufferSize = True"
| "callback_call (GlViewport x y w h) = True"
| "callback_call _ = False"

fun cleanup_call :: "call \<Rightarrow> bool" where
  "cleanup_call (GlDeleteVertexArrays n) = True"
| "cleanup_call (GlDeleteBuffers n) = True"
| "cleanup_call GlfwTerminate = True"
| "cleanup_call _ = False"

text \<open>The calls that only the body of a loop issues.\<close>

fun frame_call :: "call \<Rightarrow> bool" where
  "frame_call GlfwPollEvents = True"
| "frame_call GlfwGetTime = True"
| "frame_call (GlGetUniformLocation p nm) = True"
| "frame_call (GlUniform4f loc v0 v1 v2 v3) = True"
| "frame_call (GlClearColor r g b a) = True"
| "frame_call (GlClear bits) = True"
| "frame_call (GlDrawArrays mode first n) = True"
| "frame_call (GlDrawElements mode n ty offset) = True"
| "frame_call GlfwSwapBuffers = True"
| "frame_call _ = False"

text \<open>
  The context after the loop has run one iteration (the test of the close flag,
  then the body) for each frame input of a list.
\<close>

primrec run_frames_main_cpp :: "name \<Rightarrow> name \<Rightarrow> event list list \<Rightarrow> ctx \<Rightarrow> ctx" where
  "run_frames_main_cpp shaderProgram VAO [] s = s"
| "run_frames_main_cpp shaderProgram VAO (es # rest) s =
     run_frames_main_cpp shaderProgram VAO rest
       (loop_body_main_cpp shaderProgram VAO es (snd (glfwWindowShouldClose s)))"

primrec run_frames_part_000 :: "driver \<Rightarrow> name \<Rightarrow> name \<Rightarrow> frame_input list \<Rightarrow> ctx \<Rightarrow> ctx" where
  "run_frames_part_000 d shaderProgram VAO [] s = s"
| "run_frames_part_000 d shaderProgram VAO (f # rest) s =
     run_frames_part_000 d shaderProgram VAO rest
       (loop_body_part_000 d shaderProgram VAO f (snd (glfwWindowShouldClose s)))"

subsection \<open>Concrete runs\<close>

text \<open>
  A driver that accepts every shader and links every program, with a C library
  whose \<^verbatim>\<open>sin\<close> is the sine rounded to \<^verbatim>\<open>float\<close>; a vertex source
  with the semicolon after the assignment left out, and a driver that rejects
  exactly that source; an escape press; and a run of two frames: a resize and an
  escape release in the first, an escape press in the second.
\<close>

definition plain_driver :: driver where
  "plain_driver =
     \<lparr>compile_outcome = (\<lambda>ty src. (True, [])),
      link_outcome = (\<lambda>obs. (True, [])),
      uniform_location = (\<lambda>ob nm. if nm = ''ourColor'' then 0 else - 1),
      created_framebuffer = (512, 512),
      libm_sin = (\<lambda>t. to_float (sin t))\<rparr>"

definition malformed_vertex_source :: string where
  "malformed_vertex_source =
     ''#version 330 core\<newline>'' @
     ''layout (location = 0) in vec3 position;\<newline>'' @
     ''void main()\<newline>'' @
     ''{\<newline>'' @
     ''gl_Position = vec4(position.x, position.y, position.z, 1.0)\<newline>'' @
     ''}''"

definition strict_driver :: driver where
  "strict_driver =
     \<lparr>compile_outcome = (\<lambda>ty src.
        if src = malformed_vertex_source
        then (False, ''0(6) : error C0000: syntax error, unexpected }, expecting ;'')
        else (True, [])),
      link_outcome = (\<lambda>obs.
        if list_all sh_status obs then (True, [])
        else (False, ''Vertex info: the shader was not successfully compiled'')),
      uniform_location = (\<lambda>ob nm. - 1),
      created_framebuffer = (640, 480),
      libm_sin = (\<lambda>t. to_float (sin t))\<rparr>"

definition escape_press :: event where
  "escape_press = Key GLFW_KEY_ESCAPE 9 GLFW_PRESS 0"

definition two_frames :: "frame_input list" where
  "two_frames =
     [\<lparr>events = [WindowSize 800 600 1600 1200, Key GLFW_KEY_ESCAPE 9 GLFW_RELEASE 0],
       now = 0\<rparr>,
      \<lparr>events = [escape_press], now = 1\<rparr>]"

section \<open>Auxiliary facts\<close>

lemmas lib_defs =
  issue_def glfwSetWindowShouldClose_def glfwGetFramebufferSize_def glViewport_def
  glfwInit_def glfwWindowHint_def glfwCreateWindow_def glfwMakeContextCurrent_def
  glfwSetKeyCallback_def glfwSetWindowSizeCallback_def glewInit_def
  glfwWindowShouldClose_def glfwGetTime_def glfwSwapBuffers_def glfwTerminate_def
  glCreateShader_def glShaderSource_def glCompileShader_def glGetShaderiv_def
  glGetShaderInfoLog_def glCreateProgram_def glAttachShader_def glLinkProgram_def
  glGetProgramiv_def glGetProgramInfoLog_def glDeleteShader_def glGetUniformLocation_def
  glUseProgram_def glUniform4f_def glGenVertexArrays_def glGenBuffers_def
  glBindVertexArray_def glBufferData_def glVertexAttribPointer_def
  glEnableVertexAttribArray_def glClearColor_def glClear_def glDrawArrays_def
  glDrawElements_def glDeleteVertexArrays_def glDeleteBuffers_def

subsection \<open>Rounding to \<^verbatim>\<open>float\<close>\<close>







lemma floor_log2_eq:
  assumes "2 powi k \<le> \<bar>x\<bar>" and "\<bar>x\<bar> < 2 powi (k + 1)"
  shows "\<lfloor>log 2 \<bar>x\<bar>\<rfloor> = k"
proof -
  have pos: "0 < \<bar>x\<bar>"
    using assms(1) by (smt (verit) zero_less_power_int)
  have "2 powr real_of_int k \<le> \<bar>x\<bar>" and "\<bar>x\<bar> < 2 powr real_of_int (k + 1)"
    using assms by (simp_all only: powr_real_of_int' [of 2, simplified])
  then show ?thesis
    using floor_log_eq_powr_iff [OF pos, of 2 k] by simp
qed

text \<open>
  Two values of the rounding: a tie goes to the even significand, and a power of
  two is kept.
\<close>

lemma to_float_tie: "to_float 16777217 = 16777216"
proof -
  have "\<lfloor>log 2 \<bar>16777217::real\<bar>\<rfloor> = 24"
    by (rule floor_log2_eq) simp_all
  then have e: "float_exponent 16777217 = 1"
    by (simp add: float_exponent_def)
  have r: "round_even (16777217 / 2) = 8388608"
    by (simp add: round_even_def)
  show ?thesis
    by (simp add: to_float_def float_ulp_def e r)
qed

lemma to_float_power_of_two: "to_float (1 / 1024) = 1 / 1024"
proof -
  have "\<lfloor>log 2 \<bar>1 / 1024::real\<bar>\<rfloor> = - 10"
    by (rule floor_log2_eq) (simp_all add: power_int_minus)
  then have e: "float_exponent (1 / 1024) = - 33"
    by (simp add: float_exponent_def)
  have u: "float_ulp (1 / 1024) = 1 / 2 ^ 33"
    by (simp add: float_ulp_def e power_int_minus)
  have r: "round_even (2 ^ 33 / 1024) = 2 ^ 23"
    by (simp add: round_even_def)
  show ?thesis
    using r by (simp add: to_float_def u)
qed









subsection \<open>The callbacks and the poll\<close>

lemma window_size_callback_eq:
  "window_size_callback w h s =
     s\<lparr>calls := calls s @
         [GlfwGetFramebufferSize,
          GlViewport 0 0 (fst (framebuffer_size s)) (snd (framebuffer_size s))],
       WIDTH := w, HEIGHT := h,
       viewport := (0, 0, fst (framebuffer_size s), snd (framebuffer_size s))\<rparr>"
  by (simp add: window_size_callback_def lib_defs split_def)

lemma should_close_deliver: "should_close (deliver e s) = (should_close s \<or> closes e)"
  by (cases e) (auto simp: key_callback_def window_size_callback_eq lib_defs GL_TRUE_def)

lemma should_close_deliver_all:
  "should_close (deliver_all es s) = (should_close s \<or> list_ex closes es)"
  by (induction es arbitrary: s) (auto simp: should_close_deliver)

lemma deliver_frame:
  "vertex_array_binding (deliver e s) = vertex_array_binding s"
  "array_buffer_binding (deliver e s) = array_buffer_binding s"
  "element_binding (deliver e s) = element_binding s"
  "current_program (deliver e s) = current_program s"
  "shader_objs (deliver e s) = shader_objs s"
  "program_objs (deliver e s) = program_objs s"
  "vertex_arrays (deliver e s) = vertex_arrays s"
  "buffers (deliver e s) = buffers s"
  "fresh_name (deliver e s) = fresh_name s"
  "lastFrameTime (deliver e s) = lastFrameTime s"
  "cout (deliver e s) = cout s"
  by (cases e; simp add: key_callback_def window_size_callback_eq lib_defs)+

lemma deliver_all_frame:
  "vertex_array_binding (deliver_all es s) = vertex_array_binding s"
  "array_buffer_binding (deliver_all es s) = array_buffer_binding s"
  "element_binding (deliver_all es s) = element_binding s"
  "current_program (deliver_all es s) = current_program s"
  "shader_objs (deliver_all es s) = shader_objs s"
  "program_objs (deliver_all es s) = program_objs s"
  "vertex_arrays (deliver_all es s) = vertex_arrays s"
  "buffers (deliver_all es s) = buffers s"
  "fresh_name (deliver_all es s) = fresh_name s"
  "lastFrameTime (deliver_all es s) = lastFrameTime s"
  "cout (deliver_all es s) = cout s"
  by (induction es arbitrary: s; simp add: deliver_frame)+

lemma calls_deliver:
  "\<exists>cs. calls (deliver e s) = calls s @ cs \<and> list_all callback_call cs"
  by (cases e) (auto simp: key_callback_def window_size_callback_eq lib_defs)

lemma calls_deliver_all:
  "\<exists>cs. calls (deliver_all es s) = calls s @ cs \<and> list_all callback_call cs"
proof (induction es arbitrary: s)
  case Nil
  show ?case by simp
next
  case (Cons e es)
  obtain cs1 where c1: "calls (deliver e s) = calls s @ cs1" "list_all callback_call cs1"
    using calls_deliver by blast
  obtain cs2 where c2: "calls (deliver_all es (deliver e s)) = calls (deliver e s) @ cs2"
      "list_all callback_call cs2"
    using Cons.IH by blast
  show ?case
    by (rule exI [of _ "cs1 @ cs2"]) (simp add: c1 c2)
qed

lemma calls_glfwPollEvents:
  "\<exists>cs. calls (glfwPollEvents es s) = calls s @ GlfwPollEvents # cs \<and> list_all callback_call cs"
proof -
  obtain cs where
    "calls (deliver_all es (issue GlfwPollEvents s)) = calls (issue GlfwPollEvents s) @ cs"
    "list_all callback_call cs"
    using calls_deliver_all by blast
  then show ?thesis
    by (simp add: glfwPollEvents_def issue_def)
qed

subsection \<open>The loop bodies\<close>

lemma calls_loop_body_part_000:
  "calls (loop_body_part_000 d p vao f s) =
     calls (glfwPollEvents (events f) s) @
     [GlfwGetTime, GlGetUniformLocation p ''ourColor'', GlUseProgram p,
      GlUniform4f (fst (glGetUniformLocation d p ''ourColor'' s))
        (greenValue d (to_float (now f))) (greenValue d (to_float (now f)))
          (greenValue d (to_float (now f))) 1,
      GlClearColor (to_float 0.529) (to_float 0.808) (to_float 0.980) 1,
      GlClear [GL_COLOR_BUFFER_BIT, GL_DEPTH_BUFFER_BIT, GL_STENCIL_BUFFER_BIT],
      GlUseProgram p, GlBindVertexArray vao,
      GlDrawElements GL_TRIANGLES sizeof_indices_part_000 GL_UNSIGNED_INT 0,
      GlBindVertexArray 0, GlfwSwapBuffers]"
  by (simp add: loop_body_part_000_def glfwPollEvents_def lib_defs Let_def split_def
      deliver_all_frame)

lemma loop_body_part_000_frame:
  "vertex_array_binding (loop_body_part_000 d p vao f s) = 0"
  "array_buffer_binding (loop_body_part_000 d p vao f s) = array_buffer_binding s"
  "shader_objs (loop_body_part_000 d p vao f s) = shader_objs s"
  "program_objs (loop_body_part_000 d p vao f s) = program_objs s"
  "vertex_arrays (loop_body_part_000 d p vao f s) = vertex_arrays s"
  "buffers (loop_body_part_000 d p vao f s) = buffers s"
  "fresh_name (loop_body_part_000 d p vao f s) = fresh_name s"
  "cout (loop_body_part_000 d p vao f s) = cout s"
  "should_close (loop_body_part_000 d p vao f s) = (should_close s \<or> close_requested f)"
  by (simp_all add: loop_body_part_000_def glfwPollEvents_def lib_defs Let_def split_def
      deliver_all_frame should_close_deliver_all close_requested_def)

lemma calls_loop_body_main_cpp:
  "calls (loop_body_main_cpp p vao es s) =
     calls (glfwPollEvents es s) @
     [GlClearColor (to_float 0.529) (to_float 0.808) (to_float 0.980) 1,
      GlClear [GL_COLOR_BUFFER_BIT, GL_DEPTH_BUFFER_BIT, GL_STENCIL_BUFFER_BIT],
      GlUseProgram p, GlBindVertexArray vao, GlDrawArrays GL_TRIANGLES 0 3,
      GlBindVertexArray 0, GlfwSwapBuffers]"
  by (simp add: loop_body_main_cpp_def glfwPollEvents_def lib_defs Let_def)

lemma loop_body_main_cpp_frame:
  "vertex_array_binding (loop_body_main_cpp p vao es s) = 0"
  "array_buffer_binding (loop_body_main_cpp p vao es s) = array_buffer_binding s"
  "shader_objs (loop_body_main_cpp p vao es s) = shader_objs s"
  "program_objs (loop_body_main_cpp p vao es s) = program_objs s"
  "vertex_arrays (loop_body_main_cpp p vao es s) = vertex_arrays s"
  "buffers (loop_body_main_cpp p vao es s) = buffers s"
  "fresh_name (loop_body_main_cpp p vao es s) = fresh_name s"
  "cout (loop_body_main_cpp p vao es s) = cout s"
  "should_close (loop_body_main_cpp p vao es s) = (should_close s \<or> list_ex closes es)"
  by (simp_all add: loop_body_main_cpp_def glfwPollEvents_def lib_defs Let_def
      deliver_all_frame should_close_deliver_all)

subsection \<open>The regions before the loop\<close>

lemma calls_initialise:
  "calls (initialise d s) = calls s @
     [GlfwInit, GlfwWindowHint GLFW_CONTEXT_VERSION_MAJOR 3,
      GlfwWindowHint GLFW_CONTEXT_VERSION_MINOR 3,
      GlfwWindowHint GLFW_OPENGL_PROFILE GLFW_OPENGL_CORE_PROFILE,
      GlfwWindowHint GLFW_RESIZABLE GL_TRUE,
      GlfwCreateWindow (WIDTH s) (HEIGHT s) ''Alphascape'',
      GlfwMakeContextCurrent, GlfwSetKeyCallback, GlfwSetWindowSizeCallback, GlewInit,
      GlViewport 0 0 (WIDTH s) (HEIGHT s)]"
  by (simp add: initialise_def lib_defs Let_def)

lemma initialise_frame:
  "should_close (initialise d s) = False"
  "vertex_array_binding (initialise d s) = vertex_array_binding s"
  "array_buffer_binding (initialise d s) = array_buffer_binding s"
  "shader_objs (initialise d s) = shader_objs s"
  "program_objs (initialise d s) = program_objs s"
  "vertex_arrays (initialise d s) = vertex_arrays s"
  "buffers (initialise d s) = buffers s"
  "fresh_name (initialise d s) = fresh_name s"
  "cout (initialise d s) = cout s"
  by (simp_all add: initialise_def lib_defs Let_def)

lemma fst_compile_stage: "fst (compile_stage d ty heading src s) = fresh_name s"
  by (simp add: compile_stage_def lib_defs split_def Let_def)

lemma calls_compile_stage:
  "calls (snd (compile_stage d ty heading src s)) = calls s @
     [GlCreateShader ty, GlShaderSource (fresh_name s) src,
      GlCompileShader (fresh_name s), GlGetShaderiv (fresh_name s) GL_COMPILE_STATUS] @
     (if fst (compile_outcome d ty src) then [] else [GlGetShaderInfoLog (fresh_name s) 512])"
  by (simp add: compile_stage_def lib_defs split_def Let_def report_def GL_TRUE_def GL_FALSE_def)

lemma cout_compile_stage:
  "cout (snd (compile_stage d ty heading src s)) = cout s @
     (if fst (compile_outcome d ty src) then []
      else heading @ ''\<newline>'' @ take 511 (snd (compile_outcome d ty src)) @ ''\<newline>'')"
  by (simp add: compile_stage_def lib_defs split_def Let_def report_def GL_TRUE_def GL_FALSE_def)

lemma shader_objs_compile_stage:
  "shader_objs (snd (compile_stage d ty heading src s)) =
     (shader_objs s)(fresh_name s \<mapsto>
        \<lparr>sh_type = ty, sh_source = src, sh_status = fst (compile_outcome d ty src),
         sh_log = snd (compile_outcome d ty src)\<rparr>)"
  by (simp add: compile_stage_def lib_defs split_def Let_def report_def GL_TRUE_def GL_FALSE_def)

lemma compile_stage_frame:
  "should_close (snd (compile_stage d ty heading src s)) = should_close s"
  "vertex_array_binding (snd (compile_stage d ty heading src s)) = vertex_array_binding s"
  "array_buffer_binding (snd (compile_stage d ty heading src s)) = array_buffer_binding s"
  "program_objs (snd (compile_stage d ty heading src s)) = program_objs s"
  "vertex_arrays (snd (compile_stage d ty heading src s)) = vertex_arrays s"
  "buffers (snd (compile_stage d ty heading src s)) = buffers s"
  "fresh_name (snd (compile_stage d ty heading src s)) = Suc (fresh_name s)"
  by (simp_all add: compile_stage_def lib_defs split_def Let_def report_def)

lemma fst_link_shaders: "fst (link_shaders d v f s) = fresh_name s"
  by (simp add: link_shaders_def lib_defs split_def Let_def)

lemma calls_link_shaders:
  "\<exists>r. calls (snd (link_shaders d v f s)) = calls s @
     [GlCreateProgram, GlAttachShader (fresh_name s) v, GlAttachShader (fresh_name s) f,
      GlLinkProgram (fresh_name s), GlGetProgramiv (fresh_name s) GL_LINK_STATUS] @ r
    \<and> (r = [] \<or> r = [GlGetProgramInfoLog (fresh_name s) 512])"
  by (simp add: link_shaders_def lib_defs split_def Let_def report_def GL_TRUE_def GL_FALSE_def)

lemma cout_link_shaders:
  "\<exists>r. cout (snd (link_shaders d v f s)) = cout s @ r"
  by (simp add: link_shaders_def lib_defs split_def Let_def report_def GL_TRUE_def GL_FALSE_def)

lemma dom_program_objs_link_shaders:
  "dom (program_objs (snd (link_shaders d v f s))) = insert (fresh_name s) (dom (program_objs s))"
  by (simp add: link_shaders_def lib_defs split_def Let_def report_def)

lemma link_shaders_frame:
  "should_close (snd (link_shaders d v f s)) = should_close s"
  "vertex_array_binding (snd (link_shaders d v f s)) = vertex_array_binding s"
  "array_buffer_binding (snd (link_shaders d v f s)) = array_buffer_binding s"
  "shader_objs (snd (link_shaders d v f s)) = shader_objs s"
  "vertex_arrays (snd (link_shaders d v f s)) = vertex_arrays s"
  "buffers (snd (link_shaders d v f s)) = buffers s"
  "fresh_name (snd (link_shaders d v f s)) = Suc (fresh_name s)"
  by (simp_all add: link_shaders_def lib_defs split_def Let_def report_def)

lemmas compile_shaders_unfold =
  compile_shaders_def split_def Let_def fst_compile_stage fst_link_shaders
  compile_stage_frame link_shaders_frame

lemma fst_compile_shaders: "fst (compile_shaders d vs fs s) = fresh_name s + 2"
  by (simp add: compile_shaders_unfold)

lemma calls_compile_shaders:
  "\<exists>r. calls (snd (compile_shaders d vs fs s)) = calls s @
       [GlCreateShader GL_VERTEX_SHADER, GlShaderSource (fresh_name s) vs,
        GlCompileShader (fresh_name s), GlGetShaderiv (fresh_name s) GL_COMPILE_STATUS] @
       (if fst (compile_outcome d GL_VERTEX_SHADER vs) then []
        else [GlGetShaderInfoLog (fresh_name s) 512]) @
       [GlCreateShader GL_FRAGMENT_SHADER, GlShaderSource (fresh_name s + 1) fs,
        GlCompileShader (fresh_name s + 1), GlGetShaderiv (fresh_name s + 1) GL_COMPILE_STATUS] @
       (if fst (compile_outcome d GL_FRAGMENT_SHADER fs) then []
        else [GlGetShaderInfoLog (fresh_name s + 1) 512]) @
       [GlCreateProgram, GlAttachShader (fresh_name s + 2) (fresh_name s),
        GlAttachShader (fresh_name s + 2) (fresh_name s + 1),
        GlLinkProgram (fresh_name s + 2), GlGetProgramiv (fresh_name s + 2) GL_LINK_STATUS] @ r @
       [GlDeleteShader (fresh_name s), GlDeleteShader (fresh_name s + 1)]
     \<and> (r = [] \<or> r = [GlGetProgramInfoLog (fresh_name s + 2) 512])"
proof -
  let ?s1 = "snd (compile_stage d GL_VERTEX_SHADER ''ERROR::SHADER::VERTEX::COMPILATION_FAILED'' vs s)"
  let ?s2 = "snd (compile_stage d GL_FRAGMENT_SHADER ''ERROR::SHADER::FRAGMENT::COMPILATION_FAILED'' fs ?s1)"
  obtain r where r: "calls (snd (link_shaders d (fresh_name s) (Suc (fresh_name s)) ?s2)) = calls ?s2 @
     [GlCreateProgram, GlAttachShader (fresh_name ?s2) (fresh_name s),
      GlAttachShader (fresh_name ?s2) (Suc (fresh_name s)),
      GlLinkProgram (fresh_name ?s2), GlGetProgramiv (fresh_name ?s2) GL_LINK_STATUS] @ r"
     "r = [] \<or> r = [GlGetProgramInfoLog (fresh_name ?s2) 512]"
    using calls_link_shaders by blast
  show ?thesis
    apply (rule exI [of _ r])
    using r
    by (simp add: compile_shaders_unfold calls_compile_stage glDeleteShader_def issue_def)
qed

lemma cout_compile_shaders:
  "\<exists>r. cout (snd (compile_shaders d vs fs s)) = cout s @
     (if fst (compile_outcome d GL_VERTEX_SHADER vs) then []
      else ''ERROR::SHADER::VERTEX::COMPILATION_FAILED'' @ ''\<newline>'' @
           take 511 (snd (compile_outcome d GL_VERTEX_SHADER vs)) @ ''\<newline>'') @
     (if fst (compile_outcome d GL_FRAGMENT_SHADER fs) then []
      else ''ERROR::SHADER::FRAGMENT::COMPILATION_FAILED'' @ ''\<newline>'' @
           take 511 (snd (compile_outcome d GL_FRAGMENT_SHADER fs)) @ ''\<newline>'') @ r"
proof -
  let ?s1 = "snd (compile_stage d GL_VERTEX_SHADER ''ERROR::SHADER::VERTEX::COMPILATION_FAILED'' vs s)"
  let ?s2 = "snd (compile_stage d GL_FRAGMENT_SHADER ''ERROR::SHADER::FRAGMENT::COMPILATION_FAILED'' fs ?s1)"
  obtain r where r: "cout (snd (link_shaders d (fresh_name s) (Suc (fresh_name s)) ?s2)) = cout ?s2 @ r"
    using cout_link_shaders by blast
  show ?thesis
    apply (rule exI [of _ r])
    using r
    by (simp add: compile_shaders_unfold cout_compile_stage glDeleteShader_def issue_def)
qed

lemma compile_shaders_frame:
  "should_close (snd (compile_shaders d vs fs s)) = should_close s"
  "vertex_array_binding (snd (compile_shaders d vs fs s)) = vertex_array_binding s"
  "array_buffer_binding (snd (compile_shaders d vs fs s)) = array_buffer_binding s"
  "vertex_arrays (snd (compile_shaders d vs fs s)) = vertex_arrays s"
  "buffers (snd (compile_shaders d vs fs s)) = buffers s"
  "fresh_name (snd (compile_shaders d vs fs s)) = fresh_name s + 3"
  by (simp_all add: compile_shaders_unfold glDeleteShader_def issue_def)

lemma shader_objs_compile_shaders:
  "shader_objs (snd (compile_shaders d vs fs s)) =
     (shader_objs s)(fresh_name s := None, Suc (fresh_name s) := None)"
  by (simp add: compile_shaders_unfold shader_objs_compile_stage glDeleteShader_def issue_def)

lemma dom_program_objs_compile_shaders:
  "dom (program_objs (snd (compile_shaders d vs fs s))) =
     insert (fresh_name s + 2) (dom (program_objs s))"
  by (simp add: compile_shaders_unfold dom_program_objs_link_shaders glDeleteShader_def issue_def)

lemma fst_setup_buffers_part_000:
  "fst (setup_buffers_part_000 s) = (fresh_name s, fresh_name s + 1, fresh_name s + 2)"
  by (simp add: setup_buffers_part_000_def lib_defs split_def Let_def)

lemma calls_setup_buffers_part_000:
  "calls (snd (setup_buffers_part_000 s)) = calls s @
     [GlGenVertexArrays 1, GlGenBuffers 1, GlGenBuffers 1,
      GlBindVertexArray (fresh_name s),
      GlBindBuffer GL_ARRAY_BUFFER (fresh_name s + 1),
      GlBufferData GL_ARRAY_BUFFER sizeof_vertices_part_000 GL_STATIC_DRAW,
      GlBindBuffer GL_ELEMENT_ARRAY_BUFFER (fresh_name s + 2),
      GlBufferData GL_ELEMENT_ARRAY_BUFFER sizeof_indices_part_000 GL_STATIC_DRAW,
      GlVertexAttribPointer 0 3 GL_FLOAT GL_FALSE (3 * sizeof_GLfloat) 0,
      GlEnableVertexAttribArray 0,
      GlBindBuffer GL_ARRAY_BUFFER 0,
      GlBindBuffer GL_ELEMENT_ARRAY_BUFFER (fresh_name s + 2),
      GlBindVertexArray 0]"
  by (simp add: setup_buffers_part_000_def lib_defs split_def Let_def)

lemma setup_buffers_part_000_frame:
  "vertex_array_binding (snd (setup_buffers_part_000 s)) = 0"
  "array_buffer_binding (snd (setup_buffers_part_000 s)) = 0"
  "should_close (snd (setup_buffers_part_000 s)) = should_close s"
  "shader_objs (snd (setup_buffers_part_000 s)) = shader_objs s"
  "program_objs (snd (setup_buffers_part_000 s)) = program_objs s"
  "vertex_arrays (snd (setup_buffers_part_000 s)) = insert (fresh_name s) (vertex_arrays s)"
  "buffers (snd (setup_buffers_part_000 s)) =
     insert (fresh_name s + 2) (insert (fresh_name s + 1) (buffers s))"
  "cout (snd (setup_buffers_part_000 s)) = cout s"
  by (simp_all add: setup_buffers_part_000_def lib_defs split_def Let_def)

lemma fst_setup_buffers_main_cpp:
  "fst (setup_buffers_main_cpp s) = (fresh_name s, fresh_name s + 1)"
  by (simp add: setup_buffers_main_cpp_def lib_defs split_def Let_def)

lemma calls_setup_buffers_main_cpp:
  "calls (snd (setup_buffers_main_cpp s)) = calls s @
     [GlGenVertexArrays 1, GlGenBuffers 1,
      GlBindVertexArray (fresh_name s),
      GlBindBuffer GL_ARRAY_BUFFER (fresh_name s + 1),
      GlBufferData GL_ARRAY_BUFFER sizeof_vertices_main_cpp GL_STATIC_DRAW,
      GlVertexAttribPointer 0 3 GL_FLOAT GL_FALSE (3 * sizeof_GLfloat) 0,
      GlEnableVertexAttribArray 0,
      GlBindBuffer GL_ARRAY_BUFFER 0,
      GlBindVertexArray 0]"
  by (simp add: setup_buffers_main_cpp_def lib_defs split_def Let_def)

lemma setup_buffers_main_cpp_frame:
  "vertex_array_binding (snd (setup_buffers_main_cpp s)) = 0"
  "array_buffer_binding (snd (setup_buffers_main_cpp s)) = 0"
  "should_close (snd (setup_buffers_main_cpp s)) = should_close s"
  "shader_objs (snd (setup_buffers_main_cpp s)) = shader_objs s"
  "program_objs (snd (setup_buffers_main_cpp s)) = program_objs s"
  "vertex_arrays (snd (setup_buffers_main_cpp s)) = insert (fresh_name s) (vertex_arrays s)"
  "buffers (snd (setup_buffers_main_cpp s)) = insert (fresh_name s + 1) (buffers s)"
  "cout (snd (setup_buffers_main_cpp s)) = cout s"
  by (simp_all add: setup_buffers_main_cpp_def lib_defs split_def Let_def)

lemmas before_loop_unfold =
  split_def Let_def fst_compile_shaders compile_shaders_frame initialise_frame
  fst_setup_buffers_part_000 fst_setup_buffers_main_cpp
  setup_buffers_part_000_frame setup_buffers_main_cpp_frame
  shader_objs_compile_shaders dom_program_objs_compile_shaders

lemma start_simps:
  "fresh_name (start w h) = 1" "shader_objs (start w h) = Map.empty"
  "program_objs (start w h) = Map.empty" "vertex_arrays (start w h) = {}"
  "buffers (start w h) = {}" "calls (start w h) = []" "cout (start w h) = []"
  "WIDTH (start w h) = w" "HEIGHT (start w h) = h"
  by (simp_all add: start_def)

lemma fst_before_loop_part_000: "fst (before_loop_part_000 d) = (3, 4, 5, 6)"
  by (simp add: before_loop_part_000_def before_loop_unfold start_part_000_def start_simps)

lemma before_loop_part_000_state:
  "should_close (snd (before_loop_part_000 d)) = False"
  "vertex_array_binding (snd (before_loop_part_000 d)) = 0"
  "array_buffer_binding (snd (before_loop_part_000 d)) = 0"
  "shader_objs (snd (before_loop_part_000 d)) = Map.empty"
  "dom (program_objs (snd (before_loop_part_000 d))) = {3}"
  "vertex_arrays (snd (before_loop_part_000 d)) = {4}"
  "buffers (snd (before_loop_part_000 d)) = {5, 6}"
  by (auto simp add: before_loop_part_000_def before_loop_unfold start_part_000_def start_simps)

lemma fst_before_loop_main_cpp: "fst (before_loop_main_cpp d) = (3, 4, 5)"
  by (simp add: before_loop_main_cpp_def before_loop_unfold start_main_cpp_def start_simps)

lemma before_loop_main_cpp_state:
  "should_close (snd (before_loop_main_cpp d)) = False"
  "vertex_array_binding (snd (before_loop_main_cpp d)) = 0"
  "array_buffer_binding (snd (before_loop_main_cpp d)) = 0"
  "shader_objs (snd (before_loop_main_cpp d)) = Map.empty"
  "dom (program_objs (snd (before_loop_main_cpp d))) = {3}"
  "vertex_arrays (snd (before_loop_main_cpp d)) = {4}"
  "buffers (snd (before_loop_main_cpp d)) = {5}"
  by (auto simp add: before_loop_main_cpp_def before_loop_unfold start_main_cpp_def start_simps)

lemma setup_calls_compile_shaders:
  assumes "list_all (\<lambda>c. \<not> cleanup_call c \<and> \<not> frame_call c) (calls s)"
  shows "list_all (\<lambda>c. \<not> cleanup_call c \<and> \<not> frame_call c) (calls (snd (compile_shaders d vs fs s)))"
proof -
  obtain r where r: "calls (snd (compile_shaders d vs fs s)) = calls s @
       [GlCreateShader GL_VERTEX_SHADER, GlShaderSource (fresh_name s) vs,
        GlCompileShader (fresh_name s), GlGetShaderiv (fresh_name s) GL_COMPILE_STATUS] @
       (if fst (compile_outcome d GL_VERTEX_SHADER vs) then []
        else [GlGetShaderInfoLog (fresh_name s) 512]) @
       [GlCreateShader GL_FRAGMENT_SHADER, GlShaderSource (fresh_name s + 1) fs,
        GlCompileShader (fresh_name s + 1), GlGetShaderiv (fresh_name s + 1) GL_COMPILE_STATUS] @
       (if fst (compile_outcome d GL_FRAGMENT_SHADER fs) then []
        else [GlGetShaderInfoLog (fresh_name s + 1) 512]) @
       [GlCreateProgram, GlAttachShader (fresh_name s + 2) (fresh_name s),
        GlAttachShader (fresh_name s + 2) (fresh_name s + 1),
        GlLinkProgram (fresh_name s + 2), GlGetProgramiv (fresh_name s + 2) GL_LINK_STATUS] @ r @
       [GlDeleteShader (fresh_name s), GlDeleteShader (fresh_name s + 1)]"
     "r = [] \<or> r = [GlGetProgramInfoLog (fresh_name s + 2) 512]"
    using calls_compile_shaders by blast
  from r(2) show ?thesis
    by (auto simp add: r(1) assms)
qed

lemma setup_calls_before_loop_part_000:
  "list_all (\<lambda>c. \<not> cleanup_call c \<and> \<not> frame_call c) (calls (snd (before_loop_part_000 d)))"
proof -
  have "list_all (\<lambda>c. \<not> cleanup_call c \<and> \<not> frame_call c) (calls (initialise d start_part_000))"
    by (simp add: calls_initialise start_part_000_def start_simps)
  then have "list_all (\<lambda>c. \<not> cleanup_call c \<and> \<not> frame_call c)
     (calls (snd (compile_shaders d vertexShaderSource_part_000 fragmentShaderSource_part_000
        (initialise d start_part_000))))"
    by (rule setup_calls_compile_shaders)
  then show ?thesis
    by (simp add: before_loop_part_000_def split_def Let_def calls_setup_buffers_part_000)
qed

lemma setup_calls_before_loop_main_cpp:
  "list_all (\<lambda>c. \<not> cleanup_call c \<and> \<not> frame_call c) (calls (snd (before_loop_main_cpp d)))"
proof -
  have "list_all (\<lambda>c. \<not> cleanup_call c \<and> \<not> frame_call c) (calls (initialise d start_main_cpp))"
    by (simp add: calls_initialise start_main_cpp_def start_simps)
  then have "list_all (\<lambda>c. \<not> cleanup_call c \<and> \<not> frame_call c)
     (calls (snd (compile_shaders d vertexShaderSource_main_cpp fragmentShaderSource_main_cpp
        (initialise d start_main_cpp))))"
    by (rule setup_calls_compile_shaders)
  then show ?thesis
    by (simp add: before_loop_main_cpp_def split_def Let_def calls_setup_buffers_main_cpp)
qed

lemma glfwWindowShouldClose_simps:
  "fst (glfwWindowShouldClose s) = should_close s"
  "snd (glfwWindowShouldClose s) = issue GlfwWindowShouldClose s"
  by (simp_all add: glfwWindowShouldClose_def)

lemma issue_frame:
  "should_close (issue c s) = should_close s"
  "vertex_array_binding (issue c s) = vertex_array_binding s"
  "array_buffer_binding (issue c s) = array_buffer_binding s"
  "shader_objs (issue c s) = shader_objs s"
  "program_objs (issue c s) = program_objs s"
  "vertex_arrays (issue c s) = vertex_arrays s"
  "buffers (issue c s) = buffers s"
  "cout (issue c s) = cout s"
  "calls (issue c s) = calls s @ [c]"
  by (simp_all add: issue_def)

subsection \<open>The loop of \<^verbatim>\<open>src/unnamed/part_000\<close>\<close>

lemma main_loop_part_000_closed:
  "should_close s \<Longrightarrow> main_loop_part_000 d p vao fs s = Some (issue GlfwWindowShouldClose s)"
  by (cases fs) (simp_all add: glfwWindowShouldClose_simps)

lemma main_loop_part_000_None:
  "(main_loop_part_000 d p vao fs s = None) = (\<not> should_close s \<and> \<not> list_ex close_requested fs)"
proof (induction fs arbitrary: s)
  case Nil
  show ?case by (simp add: glfwWindowShouldClose_simps Let_def)
next
  case (Cons f fs)
  show ?case
    by (simp add: glfwWindowShouldClose_simps Let_def Cons.IH loop_body_part_000_frame issue_frame)
qed

lemma main_loop_part_000_result:
  assumes "main_loop_part_000 d p vao fs s = Some s'" and "\<not> should_close s"
  shows "\<exists>k<length fs. close_requested (fs ! k) \<and> \<not> list_ex close_requested (take k fs)
           \<and> s' = issue GlfwWindowShouldClose (run_frames_part_000 d p vao (take (Suc k) fs) s)"
  using assms
proof (induction fs arbitrary: s)
  case Nil
  then show ?case by (simp add: glfwWindowShouldClose_simps)
next
  case (Cons f fs)
  let ?s1 = "loop_body_part_000 d p vao f (issue GlfwWindowShouldClose s)"
  from Cons.prems have run: "main_loop_part_000 d p vao fs ?s1 = Some s'"
    by (simp add: glfwWindowShouldClose_simps)
  show ?case
  proof (cases "close_requested f")
    case True
    then have "should_close ?s1"
      by (simp add: loop_body_part_000_frame)
    then have "s' = issue GlfwWindowShouldClose ?s1"
      using run by (simp add: main_loop_part_000_closed)
    with True show ?thesis
      by (intro exI [of _ 0]) (simp add: glfwWindowShouldClose_simps)
  next
    case False
    then have "\<not> should_close ?s1"
      using Cons.prems(2) by (simp add: loop_body_part_000_frame issue_frame)
    from Cons.IH [OF run this] obtain k where k: "k < length fs" "close_requested (fs ! k)"
      "\<not> list_ex close_requested (take k fs)"
      "s' = issue GlfwWindowShouldClose (run_frames_part_000 d p vao (take (Suc k) fs) ?s1)"
      by blast
    with False show ?thesis
      by (intro exI [of _ "Suc k"]) (simp add: glfwWindowShouldClose_simps)
  qed
qed

lemma not_frame_call_callback: "callback_call c \<Longrightarrow> \<not> frame_call c \<and> \<not> cleanup_call c"
  by (cases c) simp_all

lemma callback_calls_filter:
  assumes "list_all callback_call cs"
  shows "filter frame_call cs = []" and "filter cleanup_call cs = []"
  using assms by (induction cs) (simp_all add: not_frame_call_callback)

text \<open>What one iteration adds to the log.\<close>

lemma iteration_part_000:
  "\<exists>cs. calls (loop_body_part_000 d p vao f (issue GlfwWindowShouldClose s)) = calls s @ cs
     \<and> filter cleanup_call cs = []
     \<and> length (filter (\<lambda>c. c = GlfwPollEvents) cs) = 1
     \<and> length (filter (\<lambda>c. c = GlGetUniformLocation p ''ourColor'') cs) = 1
     \<and> last cs = GlfwSwapBuffers"
proof -
  obtain cb where cb: "calls (glfwPollEvents (events f) (issue GlfwWindowShouldClose s)) =
      calls (issue GlfwWindowShouldClose s) @ GlfwPollEvents # cb" "list_all callback_call cb"
    using calls_glfwPollEvents by blast
  have a: "filter (\<lambda>c. c = GlfwPollEvents) cb = []"
    using cb(2) by (induction cb) (auto)
  have b: "filter (\<lambda>c. c = GlGetUniformLocation p ''ourColor'') cb = []"
    using cb(2) by (induction cb) (auto)
  show ?thesis
    apply (rule exI [of _ "[GlfwWindowShouldClose, GlfwPollEvents] @ cb @
       [GlfwGetTime, GlGetUniformLocation p ''ourColor'', GlUseProgram p,
        GlUniform4f (fst (glGetUniformLocation d p ''ourColor'' (issue GlfwWindowShouldClose s)))
          (greenValue d (to_float (now f))) (greenValue d (to_float (now f)))
          (greenValue d (to_float (now f))) 1,
        GlClearColor (to_float 0.529) (to_float 0.808) (to_float 0.980) 1,
        GlClear [GL_COLOR_BUFFER_BIT, GL_DEPTH_BUFFER_BIT, GL_STENCIL_BUFFER_BIT],
        GlUseProgram p, GlBindVertexArray vao,
        GlDrawElements GL_TRIANGLES sizeof_indices_part_000 GL_UNSIGNED_INT 0,
        GlBindVertexArray 0, GlfwSwapBuffers]"])
    by (simp add: calls_loop_body_part_000 cb issue_frame a b callback_calls_filter)
qed

lemma calls_run_frames_part_000:
  "\<exists>cs. calls (run_frames_part_000 d p vao fs s) = calls s @ cs
     \<and> filter cleanup_call cs = []
     \<and> length (filter (\<lambda>c. c = GlfwPollEvents) cs) = length fs
     \<and> length (filter (\<lambda>c. c = GlGetUniformLocation p ''ourColor'') cs) = length fs
     \<and> (fs = [] \<or> last cs = GlfwSwapBuffers)"
proof (induction fs arbitrary: s)
  case Nil
  show ?case by simp
next
  case (Cons f fs)
  let ?s1 = "loop_body_part_000 d p vao f (issue GlfwWindowShouldClose s)"
  obtain c1 where c1: "calls ?s1 = calls s @ c1" "filter cleanup_call c1 = []"
      "length (filter (\<lambda>c. c = GlfwPollEvents) c1) = 1"
      "length (filter (\<lambda>c. c = GlGetUniformLocation p ''ourColor'') c1) = 1"
      "last c1 = GlfwSwapBuffers"
    using iteration_part_000 by blast
  obtain c2 where c2: "calls (run_frames_part_000 d p vao fs ?s1) = calls ?s1 @ c2"
      "filter cleanup_call c2 = []"
      "length (filter (\<lambda>c. c = GlfwPollEvents) c2) = length fs"
      "length (filter (\<lambda>c. c = GlGetUniformLocation p ''ourColor'') c2) = length fs"
      "fs = [] \<or> last c2 = GlfwSwapBuffers"
    using Cons.IH by blast
  have ne: "c1 \<noteq> []" using c1(3) by auto
  have c2ne: "fs \<noteq> [] \<Longrightarrow> c2 \<noteq> []" using c2(3) by auto
  show ?case
    apply (rule exI [of _ "c1 @ c2"])
    using c1 c2 ne c2ne
    by (cases "fs = []") (auto simp add: glfwWindowShouldClose_simps)
qed

lemma run_frames_part_000_frame:
  "array_buffer_binding (run_frames_part_000 d p vao fs s) = array_buffer_binding s"
  "shader_objs (run_frames_part_000 d p vao fs s) = shader_objs s"
  "program_objs (run_frames_part_000 d p vao fs s) = program_objs s"
  "vertex_arrays (run_frames_part_000 d p vao fs s) = vertex_arrays s"
  "buffers (run_frames_part_000 d p vao fs s) = buffers s"
  "cout (run_frames_part_000 d p vao fs s) = cout s"
  by (induction fs arbitrary: s;
      simp add: loop_body_part_000_frame glfwWindowShouldClose_simps issue_frame)+

lemma vertex_array_binding_run_frames_part_000:
  "vertex_array_binding (run_frames_part_000 d p vao fs s) =
     (if fs = [] then vertex_array_binding s else 0)"
  by (induction fs arbitrary: s)
     (simp_all add: loop_body_part_000_frame glfwWindowShouldClose_simps issue_frame)

subsection \<open>The loop of \<^verbatim>\<open>src/main.cpp\<close>\<close>

lemma main_loop_main_cpp_closed:
  "should_close s \<Longrightarrow> main_loop_main_cpp p vao polls s = Some (issue GlfwWindowShouldClose s)"
  by (cases polls) (simp_all add: glfwWindowShouldClose_simps)

lemma main_loop_main_cpp_result:
  assumes "main_loop_main_cpp p vao polls s = Some s'" and "\<not> should_close s"
  shows "\<exists>k<length polls. list_ex closes (polls ! k)
           \<and> \<not> list_ex (list_ex closes) (take k polls)
           \<and> s' = issue GlfwWindowShouldClose (run_frames_main_cpp p vao (take (Suc k) polls) s)"
  using assms
proof (induction polls arbitrary: s)
  case Nil
  then show ?case by (simp add: glfwWindowShouldClose_simps)
next
  case (Cons es polls)
  let ?s1 = "loop_body_main_cpp p vao es (issue GlfwWindowShouldClose s)"
  from Cons.prems have run: "main_loop_main_cpp p vao polls ?s1 = Some s'"
    by (simp add: glfwWindowShouldClose_simps)
  show ?case
  proof (cases "list_ex closes es")
    case True
    then have "should_close ?s1"
      by (simp add: loop_body_main_cpp_frame)
    then have "s' = issue GlfwWindowShouldClose ?s1"
      using run by (simp add: main_loop_main_cpp_closed)
    with True show ?thesis
      by (intro exI [of _ 0]) (simp add: glfwWindowShouldClose_simps)
  next
    case False
    then have "\<not> should_close ?s1"
      using Cons.prems(2) by (simp add: loop_body_main_cpp_frame issue_frame)
    from Cons.IH [OF run this] obtain k where k: "k < length polls" "list_ex closes (polls ! k)"
      "\<not> list_ex (list_ex closes) (take k polls)"
      "s' = issue GlfwWindowShouldClose (run_frames_main_cpp p vao (take (Suc k) polls) ?s1)"
      by blast
    with False show ?thesis
      by (intro exI [of _ "Suc k"]) (simp add: glfwWindowShouldClose_simps)
  qed
qed

lemma run_frames_main_cpp_frame:
  "array_buffer_binding (run_frames_main_cpp p vao polls s) = array_buffer_binding s"
  "shader_objs (run_frames_main_cpp p vao polls s) = shader_objs s"
  "program_objs (run_frames_main_cpp p vao polls s) = program_objs s"
  "vertex_arrays (run_frames_main_cpp p vao polls s) = vertex_arrays s"
  "buffers (run_frames_main_cpp p vao polls s) = buffers s"
  "cout (run_frames_main_cpp p vao polls s) = cout s"
  by (induction polls arbitrary: s;
      simp add: loop_body_main_cpp_frame glfwWindowShouldClose_simps issue_frame)+

subsection \<open>\<^verbatim>\<open>main\<close> as a whole\<close>

lemma clean_up_simps:
  "calls (clean_up vao vbo s) =
     calls s @ [GlDeleteVertexArrays vao, GlDeleteBuffers vbo, GlfwTerminate]"
  "vertex_arrays (clean_up vao vbo s) = vertex_arrays s - {vao}"
  "buffers (clean_up vao vbo s) = buffers s - {vbo}"
  "shader_objs (clean_up vao vbo s) = shader_objs s"
  "program_objs (clean_up vao vbo s) = program_objs s"
  by (simp_all add: clean_up_def lib_defs Let_def)

lemma setup_calls_filter:
  assumes "list_all (\<lambda>c. \<not> cleanup_call c \<and> \<not> frame_call c) cs"
  shows "filter cleanup_call cs = []"
    and "filter (\<lambda>c. c = GlfwPollEvents) cs = []"
    and "filter (\<lambda>c. c = GlGetUniformLocation p nm) cs = []"
  using assms by (induction cs) auto

lemma before_loop_part_000_eq:
  "before_loop_part_000 d = ((3, 4, 5, 6), snd (before_loop_part_000 d))"
  by (metis fst_before_loop_part_000 prod.collapse)

lemma before_loop_main_cpp_eq:
  "before_loop_main_cpp d = ((3, 4, 5), snd (before_loop_main_cpp d))"
  by (metis fst_before_loop_main_cpp prod.collapse)

lemma main_part_000_eq:
  "main_part_000 d frames =
     (case main_loop_part_000 d 3 4 frames (snd (before_loop_part_000 d)) of
        None \<Rightarrow> None
      | Some s4 \<Rightarrow> Some (0, clean_up 4 5 s4))"
  by (subst main_part_000_def, subst before_loop_part_000_eq) simp

lemma main_main_cpp_eq:
  "main_main_cpp d polls =
     (case main_loop_main_cpp 3 4 polls (snd (before_loop_main_cpp d)) of
        None \<Rightarrow> None
      | Some s4 \<Rightarrow> Some (0, clean_up 4 5 s4))"
  by (subst main_main_cpp_def, subst before_loop_main_cpp_eq) simp

lemma main_part_000_None:
  "(main_part_000 d frames = None) = (\<not> list_ex close_requested frames)"
proof -
  have "(main_part_000 d frames = None) =
        (main_loop_part_000 d 3 4 frames (snd (before_loop_part_000 d)) = None)"
    by (simp add: main_part_000_eq split: option.split)
  then show ?thesis
    by (simp add: main_loop_part_000_None before_loop_part_000_state)
qed

lemma main_part_000_result:
  assumes "main_part_000 d frames = Some (r, s')"
  shows "\<exists>k<length frames. close_requested (frames ! k)
           \<and> \<not> list_ex close_requested (take k frames) \<and> r = 0
           \<and> s' = clean_up 4 5 (issue GlfwWindowShouldClose
                     (run_frames_part_000 d 3 4 (take (Suc k) frames)
                        (snd (before_loop_part_000 d))))"
proof -
  from assms obtain s4 where
    s4: "main_loop_part_000 d 3 4 frames (snd (before_loop_part_000 d)) = Some s4"
    and r: "r = 0" and s': "s' = clean_up 4 5 s4"
    by (auto simp add: main_part_000_eq split: option.splits)
  have "\<not> should_close (snd (before_loop_part_000 d))"
    by (simp add: before_loop_part_000_state)
  from main_loop_part_000_result [OF s4 this] r s' show ?thesis
    by blast
qed

lemma main_main_cpp_result:
  assumes "main_main_cpp d polls = Some (r, s')"
  shows "\<exists>k<length polls. list_ex closes (polls ! k)
           \<and> \<not> list_ex (list_ex closes) (take k polls) \<and> r = 0
           \<and> s' = clean_up 4 5 (issue GlfwWindowShouldClose
                     (run_frames_main_cpp 3 4 (take (Suc k) polls)
                        (snd (before_loop_main_cpp d))))"
proof -
  from assms obtain s4 where
    s4: "main_loop_main_cpp 3 4 polls (snd (before_loop_main_cpp d)) = Some s4"
    and r: "r = 0" and s': "s' = clean_up 4 5 s4"
    by (auto simp add: main_main_cpp_eq split: option.splits)
  have "\<not> should_close (snd (before_loop_main_cpp d))"
    by (simp add: before_loop_main_cpp_state)
  from main_loop_main_cpp_result [OF s4 this] r s' show ?thesis
    by blast
qed

lemma calls_at_exit_part_000:
  assumes "k < length frames"
  shows "\<exists>pre. calls (clean_up 4 5 (issue GlfwWindowShouldClose
            (run_frames_part_000 d 3 4 (take (Suc k) frames) (snd (before_loop_part_000 d))))) =
          pre @ [GlfwSwapBuffers, GlfwWindowShouldClose,
                 GlDeleteVertexArrays 4, GlDeleteBuffers 5, GlfwTerminate]
        \<and> filter cleanup_call pre = []
        \<and> length (filter (\<lambda>c. c = GlfwPollEvents) (pre @ [GlfwSwapBuffers])) = Suc k
        \<and> length (filter (\<lambda>c. c = GlGetUniformLocation 3 ''ourColor'') (pre @ [GlfwSwapBuffers])) = Suc k"
proof -
  let ?s3 = "snd (before_loop_part_000 d)"
  have len: "length (take (Suc k) frames) = Suc k" and ne: "take (Suc k) frames \<noteq> []"
    using assms by auto
  obtain cs where cs: "calls (run_frames_part_000 d 3 4 (take (Suc k) frames) ?s3) = calls ?s3 @ cs"
      "filter cleanup_call cs = []"
      "length (filter (\<lambda>c. c = GlfwPollEvents) cs) = Suc k"
      "length (filter (\<lambda>c. c = GlGetUniformLocation 3 ''ourColor'') cs) = Suc k"
      "last cs = GlfwSwapBuffers"
    using calls_run_frames_part_000 [of d 3 4 "take (Suc k) frames" ?s3] len ne by auto
  have "cs \<noteq> []" using cs(3) by auto
  then have parts: "cs = butlast cs @ [GlfwSwapBuffers]"
    using cs(5) by (metis append_butlast_last_id)
  note quiet = setup_calls_filter [OF setup_calls_before_loop_part_000 [of d]]
  have f1: "filter cleanup_call (calls ?s3 @ butlast cs) = []"
    using cs(2) parts quiet(1) by (metis filter_append append_is_Nil_conv)
  have f2: "length (filter (\<lambda>c. c = GlfwPollEvents) (calls ?s3 @ cs)) = Suc k"
    using cs(3) quiet(2) by simp
  have f3: "length (filter (\<lambda>c. c = GlGetUniformLocation 3 ''ourColor'') (calls ?s3 @ cs)) = Suc k"
    using cs(4) quiet(3) by simp
  have eq: "calls ?s3 @ cs = (calls ?s3 @ butlast cs) @ [GlfwSwapBuffers]"
    using parts by simp
  show ?thesis
    apply (rule exI [of _ "calls ?s3 @ butlast cs"])
    using f1 f2 f3 unfolding eq
    by (simp add: clean_up_simps issue_frame cs(1) eq)
qed

lemma main_loop_main_cpp_None:
  "(main_loop_main_cpp p vao polls s = None) =
     (\<not> should_close s \<and> \<not> list_ex (list_ex closes) polls)"
proof (induction polls arbitrary: s)
  case Nil
  show ?case by (simp add: glfwWindowShouldClose_simps Let_def)
next
  case (Cons es polls)
  show ?case
    by (simp add: glfwWindowShouldClose_simps Let_def Cons.IH loop_body_main_cpp_frame issue_frame)
qed

lemma main_main_cpp_None:
  "(main_main_cpp d polls = None) = (\<not> list_ex (list_ex closes) polls)"
proof -
  have "(main_main_cpp d polls = None) =
        (main_loop_main_cpp 3 4 polls (snd (before_loop_main_cpp d)) = None)"
    by (simp add: main_main_cpp_eq split: option.split)
  then show ?thesis
    by (simp add: main_loop_main_cpp_None before_loop_main_cpp_state)
qed

lemma two_frames_close:
  "list_ex close_requested two_frames"
  "\<not> close_requested (two_frames ! 0)"
  "length two_frames = 2"
  by (simp_all add: two_frames_def close_requested_def escape_press_def
      GLFW_PRESS_def GLFW_RELEASE_def)

lemma handles_at_exit_part_000:
  assumes "main_part_000 d frames = Some (r, s')"
  shows "shader_objs s' = Map.empty \<and> vertex_arrays s' = {} \<and> buffers s' = {6}
         \<and> dom (program_objs s') = {3}"
proof -
  from main_part_000_result [OF assms] obtain k where
    "s' = clean_up 4 5 (issue GlfwWindowShouldClose
            (run_frames_part_000 d 3 4 (take (Suc k) frames) (snd (before_loop_part_000 d))))"
    by blast
  then show ?thesis
    by (auto simp add: clean_up_simps issue_frame run_frames_part_000_frame
        before_loop_part_000_state)
qed

lemma handles_at_exit_main_cpp:
  assumes "main_main_cpp d polls = Some (r, s')"
  shows "shader_objs s' = Map.empty \<and> vertex_arrays s' = {} \<and> buffers s' = {}
         \<and> dom (program_objs s') = {3}"
proof -
  from main_main_cpp_result [OF assms] obtain k where
    "s' = clean_up 4 5 (issue GlfwWindowShouldClose
            (run_frames_main_cpp 3 4 (take (Suc k) polls) (snd (before_loop_main_cpp d))))"
    by blast
  then show ?thesis
    by (auto simp add: clean_up_simps issue_frame run_frames_main_cpp_frame
        before_loop_main_cpp_state)
qed

lemma location_queries_part_000:
  assumes "main_part_000 d frames = Some (r, s')"
  shows "\<exists>k<length frames. close_requested (frames ! k)
           \<and> \<not> list_ex close_requested (take k frames)
           \<and> length (filter (\<lambda>c. c = GlfwPollEvents) (calls s')) = Suc k
           \<and> length (filter (\<lambda>c. c = GlGetUniformLocation 3 ''ourColor'') (calls s')) = Suc k"
proof -
  from main_part_000_result [OF assms] obtain k where k: "k < length frames"
      "close_requested (frames ! k)" "\<not> list_ex close_requested (take k frames)"
      "s' = clean_up 4 5 (issue GlfwWindowShouldClose
              (run_frames_part_000 d 3 4 (take (Suc k) frames) (snd (before_loop_part_000 d))))"
    by blast
  from calls_at_exit_part_000 [OF k(1), of d] obtain pre where pre:
      "calls s' = pre @ [GlfwSwapBuffers, GlfwWindowShouldClose,
                 GlDeleteVertexArrays 4, GlDeleteBuffers 5, GlfwTerminate]"
      "length (filter (\<lambda>c. c = GlfwPollEvents) (pre @ [GlfwSwapBuffers])) = Suc k"
      "length (filter (\<lambda>c. c = GlGetUniformLocation 3 ''ourColor'') (pre @ [GlfwSwapBuffers])) = Suc k"
    unfolding k(4) by blast
  have "length (filter (\<lambda>c. c = GlfwPollEvents) (calls s')) = Suc k"
    and "length (filter (\<lambda>c. c = GlGetUniformLocation 3 ''ourColor'') (calls s')) = Suc k"
    using pre(2,3) by (simp_all add: pre(1))
  with k(1,2,3) show ?thesis by blast
qed

lemma strict_driver_rejects:
  "\<not> fst (compile_outcome strict_driver GL_VERTEX_SHADER malformed_vertex_source)"
  by (simp add: strict_driver_def)

lemma exit_log_part_000:
  "(main_part_000 d frames \<noteq> None) = list_ex close_requested frames
   \<and> (\<forall>r s'. main_part_000 d frames = Some (r, s') \<longrightarrow>
        (\<exists>k pre. k < length frames
           \<and> close_requested (frames ! k)
           \<and> \<not> list_ex close_requested (take k frames)
           \<and> length (filter (\<lambda>c. c = GlfwPollEvents) (calls s')) = Suc k
           \<and> calls s' = pre @ [GlfwSwapBuffers, GlfwWindowShouldClose,
                  GlDeleteVertexArrays 4, GlDeleteBuffers 5, GlfwTerminate]
           \<and> filter cleanup_call pre = []
           \<and> fst (before_loop_part_000 d) = (3, 4, 5, 6)
           \<and> 4 \<notin> vertex_arrays s' \<and> 5 \<notin> buffers s'))"
proof (intro conjI allI impI)
  show "(main_part_000 d frames \<noteq> None) = list_ex close_requested frames"
    by (simp add: main_part_000_None)
next
  fix r s'
  assume "main_part_000 d frames = Some (r, s')"
  from main_part_000_result [OF this] obtain k where k: "k < length frames"
      "close_requested (frames ! k)" "\<not> list_ex close_requested (take k frames)"
      "s' = clean_up 4 5 (issue GlfwWindowShouldClose
              (run_frames_part_000 d 3 4 (take (Suc k) frames) (snd (before_loop_part_000 d))))"
    by blast
  from calls_at_exit_part_000 [OF k(1), of d] obtain pre where pre:
      "calls s' = pre @ [GlfwSwapBuffers, GlfwWindowShouldClose,
                 GlDeleteVertexArrays 4, GlDeleteBuffers 5, GlfwTerminate]"
      "filter cleanup_call pre = []"
      "length (filter (\<lambda>c. c = GlfwPollEvents) (pre @ [GlfwSwapBuffers])) = Suc k"
    unfolding k(4) by blast
  have n: "length (filter (\<lambda>c. c = GlfwPollEvents) (calls s')) = Suc k"
    using pre(3) by (simp add: pre(1))
  have gone: "4 \<notin> vertex_arrays s'" "5 \<notin> buffers s'"
    by (simp_all add: k(4) clean_up_simps)
  show "\<exists>k pre. k < length frames
           \<and> close_requested (frames ! k)
           \<and> \<not> list_ex close_requested (take k frames)
           \<and> length (filter (\<lambda>c. c = GlfwPollEvents) (calls s')) = Suc k
           \<and> calls s' = pre @ [GlfwSwapBuffers, GlfwWindowShouldClose,
                  GlDeleteVertexArrays 4, GlDeleteBuffers 5, GlfwTerminate]
           \<and> filter cleanup_call pre = []
           \<and> fst (before_loop_part_000 d) = (3, 4, 5, 6)
           \<and> 4 \<notin> vertex_arrays s' \<and> 5 \<notin> buffers s'"
    using k(1,2,3) pre(1,2) n gone fst_before_loop_part_000 by blast
qed




lemma no_cleanup_filter:
  assumes "filter cleanup_call pre = []" and "cleanup_call x"
  shows "filter (\<lambda>c. c = x) pre = []"
  using assms by (induction pre) (auto split: if_splits)

section \<open>Properties\<close>

subsection \<open>Shader compilation\<close>

text \<open>
  C1, as the code has it. When the vertex stage fails to compile, the region
  \<^verbatim>\<open>Compile Shaders\<close> does not stop. It fetches the log into its 512-byte buffer and
  writes the heading \<^verbatim>\<open>ERROR::SHADER::VERTEX::COMPILATION_FAILED\<close>, a line break, the
  first 511 characters of the driver's log and a line break to \<^verbatim>\<open>cout\<close>. Then it
  goes on as after a success: it creates, sources and compiles the fragment
  shader, creates the program object, attaches both shaders, links, asks for the
  link status and deletes both shaders. Each stage is compiled once, with the
  source text it was given. The name the region leaves in \<open>shaderProgram\<close> is the
  program object it created and linked.
\<close>

theorem compile_failure_reported_then_linked:
  assumes "\<not> fst (compile_outcome d GL_VERTEX_SHADER vs)"
  shows "\<exists>r2 r3 out.
     calls (snd (compile_shaders d vs fs s)) = calls s @
       [GlCreateShader GL_VERTEX_SHADER, GlShaderSource (fresh_name s) vs,
        GlCompileShader (fresh_name s), GlGetShaderiv (fresh_name s) GL_COMPILE_STATUS,
        GlGetShaderInfoLog (fresh_name s) 512,
        GlCreateShader GL_FRAGMENT_SHADER, GlShaderSource (fresh_name s + 1) fs,
        GlCompileShader (fresh_name s + 1), GlGetShaderiv (fresh_name s + 1) GL_COMPILE_STATUS] @ r2 @
       [GlCreateProgram, GlAttachShader (fresh_name s + 2) (fresh_name s),
        GlAttachShader (fresh_name s + 2) (fresh_name s + 1),
        GlLinkProgram (fresh_name s + 2), GlGetProgramiv (fresh_name s + 2) GL_LINK_STATUS] @ r3 @
       [GlDeleteShader (fresh_name s), GlDeleteShader (fresh_name s + 1)]
     \<and> (r2 = [] \<or> r2 = [GlGetShaderInfoLog (fresh_name s + 1) 512])
     \<and> (r3 = [] \<or> r3 = [GlGetProgramInfoLog (fresh_name s + 2) 512])
     \<and> cout (snd (compile_shaders d vs fs s)) = cout s @
         ''ERROR::SHADER::VERTEX::COMPILATION_FAILED'' @ ''\<newline>'' @
         take 511 (snd (compile_outcome d GL_VERTEX_SHADER vs)) @ ''\<newline>'' @ out
     \<and> fst (compile_shaders d vs fs s) = fresh_name s + 2
     \<and> fresh_name s + 2 \<in> dom (program_objs (snd (compile_shaders d vs fs s)))"
proof -
  obtain r3 where r3: "calls (snd (compile_shaders d vs fs s)) = calls s @
       [GlCreateShader GL_VERTEX_SHADER, GlShaderSource (fresh_name s) vs,
        GlCompileShader (fresh_name s), GlGetShaderiv (fresh_name s) GL_COMPILE_STATUS] @
       (if fst (compile_outcome d GL_VERTEX_SHADER vs) then []
        else [GlGetShaderInfoLog (fresh_name s) 512]) @
       [GlCreateShader GL_FRAGMENT_SHADER, GlShaderSource (fresh_name s + 1) fs,
        GlCompileShader (fresh_name s + 1), GlGetShaderiv (fresh_name s + 1) GL_COMPILE_STATUS] @
       (if fst (compile_outcome d GL_FRAGMENT_SHADER fs) then []
        else [GlGetShaderInfoLog (fresh_name s + 1) 512]) @
       [GlCreateProgram, GlAttachShader (fresh_name s + 2) (fresh_name s),
        GlAttachShader (fresh_name s + 2) (fresh_name s + 1),
        GlLinkProgram (fresh_name s + 2), GlGetProgramiv (fresh_name s + 2) GL_LINK_STATUS] @ r3 @
       [GlDeleteShader (fresh_name s), GlDeleteShader (fresh_name s + 1)]"
     "r3 = [] \<or> r3 = [GlGetProgramInfoLog (fresh_name s + 2) 512]"
    using calls_compile_shaders by blast
  obtain out0 where out0: "cout (snd (compile_shaders d vs fs s)) = cout s @
     (if fst (compile_outcome d GL_VERTEX_SHADER vs) then []
      else ''ERROR::SHADER::VERTEX::COMPILATION_FAILED'' @ ''\<newline>'' @
           take 511 (snd (compile_outcome d GL_VERTEX_SHADER vs)) @ ''\<newline>'') @
     (if fst (compile_outcome d GL_FRAGMENT_SHADER fs) then []
      else ''ERROR::SHADER::FRAGMENT::COMPILATION_FAILED'' @ ''\<newline>'' @
           take 511 (snd (compile_outcome d GL_FRAGMENT_SHADER fs)) @ ''\<newline>'') @ out0"
    using cout_compile_shaders by blast
  let ?r2 = "if fst (compile_outcome d GL_FRAGMENT_SHADER fs) then []
        else [GlGetShaderInfoLog (fresh_name s + 1) 512]"
  let ?out = "(if fst (compile_outcome d GL_FRAGMENT_SHADER fs) then []
      else ''ERROR::SHADER::FRAGMENT::COMPILATION_FAILED'' @ ''\<newline>'' @
           take 511 (snd (compile_outcome d GL_FRAGMENT_SHADER fs)) @ ''\<newline>'') @ out0"
  have a: "calls (snd (compile_shaders d vs fs s)) = calls s @
       [GlCreateShader GL_VERTEX_SHADER, GlShaderSource (fresh_name s) vs,
        GlCompileShader (fresh_name s), GlGetShaderiv (fresh_name s) GL_COMPILE_STATUS,
        GlGetShaderInfoLog (fresh_name s) 512,
        GlCreateShader GL_FRAGMENT_SHADER, GlShaderSource (fresh_name s + 1) fs,
        GlCompileShader (fresh_name s + 1), GlGetShaderiv (fresh_name s + 1) GL_COMPILE_STATUS] @ ?r2 @
       [GlCreateProgram, GlAttachShader (fresh_name s + 2) (fresh_name s),
        GlAttachShader (fresh_name s + 2) (fresh_name s + 1),
        GlLinkProgram (fresh_name s + 2), GlGetProgramiv (fresh_name s + 2) GL_LINK_STATUS] @ r3 @
       [GlDeleteShader (fresh_name s), GlDeleteShader (fresh_name s + 1)]"
    using assms by (simp add: r3(1))
  have b: "?r2 = [] \<or> ?r2 = [GlGetShaderInfoLog (fresh_name s + 1) 512]"
    by simp
  have c: "cout (snd (compile_shaders d vs fs s)) = cout s @
         ''ERROR::SHADER::VERTEX::COMPILATION_FAILED'' @ ''\<newline>'' @
         take 511 (snd (compile_outcome d GL_VERTEX_SHADER vs)) @ ''\<newline>'' @ ?out"
    using assms by (subst out0) simp
  have e: "fresh_name s + 2 \<in> dom (program_objs (snd (compile_shaders d vs fs s)))"
    by (simp add: dom_program_objs_compile_shaders)
  from a b r3(2) c e fst_compile_shaders [of d vs fs s] show ?thesis
    by blast
qed

theorem compile_failure_reported_then_linked_witness:
  "\<not> fst (compile_outcome strict_driver GL_VERTEX_SHADER malformed_vertex_source)
   \<and> (\<exists>out. cout (snd (compile_shaders strict_driver malformed_vertex_source
          fragmentShaderSource_main_cpp (initialise strict_driver start_main_cpp))) =
        ''ERROR::SHADER::VERTEX::COMPILATION_FAILED'' @ ''\<newline>'' @
        ''0(6) : error C0000: syntax error, unexpected }, expecting ;'' @ ''\<newline>'' @ out)
   \<and> fst (compile_shaders strict_driver malformed_vertex_source
          fragmentShaderSource_main_cpp (initialise strict_driver start_main_cpp)) = 3"
proof -
  have h: "\<not> fst (compile_outcome strict_driver GL_VERTEX_SHADER malformed_vertex_source)"
    by (rule strict_driver_rejects)
  have log: "take 511 (snd (compile_outcome strict_driver GL_VERTEX_SHADER malformed_vertex_source))
      = ''0(6) : error C0000: syntax error, unexpected }, expecting ;''"
    by (simp add: strict_driver_def)
  from compile_failure_reported_then_linked [OF h, of fragmentShaderSource_main_cpp
      "initialise strict_driver start_main_cpp"]
  show ?thesis
    using h by (auto simp add: log initialise_frame start_main_cpp_def start_simps)
qed

text \<open>
  The claim as first stated (after a failed vertex compilation no program object
  is created and no link is performed) fails: for the vertex source with the
  semicolon left out, rejected by the driver, the log of the region holds
  \<^verbatim>\<open>glCreateProgram\<close> and \<^verbatim>\<open>glLinkProgram\<close>.
\<close>

theorem link_attempted_after_compile_failure_counterexample:
  "\<not> fst (compile_outcome strict_driver GL_VERTEX_SHADER malformed_vertex_source)
   \<and> GlCreateProgram \<in> set (calls (snd (compile_shaders strict_driver malformed_vertex_source
        fragmentShaderSource_main_cpp (initialise strict_driver start_main_cpp))))
   \<and> GlLinkProgram 3 \<in> set (calls (snd (compile_shaders strict_driver malformed_vertex_source
        fragmentShaderSource_main_cpp (initialise strict_driver start_main_cpp))))"
proof -
  let ?s = "initialise strict_driver start_main_cpp"
  have n: "fresh_name ?s = 1"
    by (simp add: initialise_frame start_main_cpp_def start_simps)
  obtain r where "calls (snd (compile_shaders strict_driver malformed_vertex_source
        fragmentShaderSource_main_cpp ?s)) = calls ?s @
       [GlCreateShader GL_VERTEX_SHADER, GlShaderSource (fresh_name ?s) malformed_vertex_source,
        GlCompileShader (fresh_name ?s), GlGetShaderiv (fresh_name ?s) GL_COMPILE_STATUS] @
       (if fst (compile_outcome strict_driver GL_VERTEX_SHADER malformed_vertex_source) then []
        else [GlGetShaderInfoLog (fresh_name ?s) 512]) @
       [GlCreateShader GL_FRAGMENT_SHADER, GlShaderSource (fresh_name ?s + 1) fragmentShaderSource_main_cpp,
        GlCompileShader (fresh_name ?s + 1), GlGetShaderiv (fresh_name ?s + 1) GL_COMPILE_STATUS] @
       (if fst (compile_outcome strict_driver GL_FRAGMENT_SHADER fragmentShaderSource_main_cpp) then []
        else [GlGetShaderInfoLog (fresh_name ?s + 1) 512]) @
       [GlCreateProgram, GlAttachShader (fresh_name ?s + 2) (fresh_name ?s),
        GlAttachShader (fresh_name ?s + 2) (fresh_name ?s + 1),
        GlLinkProgram (fresh_name ?s + 2), GlGetProgramiv (fresh_name ?s + 2) GL_LINK_STATUS] @ r @
       [GlDeleteShader (fresh_name ?s), GlDeleteShader (fresh_name ?s + 1)]"
    using calls_compile_shaders by blast
  then show ?thesis
    using strict_driver_rejects by (simp add: n)
qed

subsection \<open>Draw counts\<close>

text \<open>
  C2. The draw calls of the two loop bodies. \<^verbatim>\<open>src/main.cpp\<close> has 9 floats, that
  is 3 vertices, and draws with \<^verbatim>\<open>glDrawArrays(GL_TRIANGLES, 0, 3)\<close>.
  \<^verbatim>\<open>src/unnamed/part_000\<close> has 8 vertices and 12 indices, and draws with
  \<^verbatim>\<open>glDrawElements\<close> whose count argument is \<^verbatim>\<open>sizeof(indices)\<close>: 48, the size of
  the array in bytes, not the number of its elements.
\<close>

theorem draw_counts:
  "length vertices_main_cpp = 3 * 3
   \<and> calls (loop_body_main_cpp p vao es s) =
       calls (glfwPollEvents es s) @
       [GlClearColor (to_float 0.529) (to_float 0.808) (to_float 0.980) 1,
        GlClear [GL_COLOR_BUFFER_BIT, GL_DEPTH_BUFFER_BIT, GL_STENCIL_BUFFER_BIT],
        GlUseProgram p, GlBindVertexArray vao, GlDrawArrays GL_TRIANGLES 0 3,
        GlBindVertexArray 0, GlfwSwapBuffers]
   \<and> length vertices_part_000 = 8 * 3
   \<and> length indices_part_000 = 12
   \<and> sizeof_indices_part_000 = 48
   \<and> calls (loop_body_part_000 d p vao f s) =
       calls (glfwPollEvents (events f) s) @
       [GlfwGetTime, GlGetUniformLocation p ''ourColor'', GlUseProgram p,
        GlUniform4f (fst (glGetUniformLocation d p ''ourColor'' s))
          (greenValue d (to_float (now f))) (greenValue d (to_float (now f)))
          (greenValue d (to_float (now f))) 1,
        GlClearColor (to_float 0.529) (to_float 0.808) (to_float 0.980) 1,
        GlClear [GL_COLOR_BUFFER_BIT, GL_DEPTH_BUFFER_BIT, GL_STENCIL_BUFFER_BIT],
        GlUseProgram p, GlBindVertexArray vao,
        GlDrawElements GL_TRIANGLES 48 GL_UNSIGNED_INT 0,
        GlBindVertexArray 0, GlfwSwapBuffers]"
proof -
  have n: "sizeof_indices_part_000 = 48"
    by (simp add: sizeof_indices_part_000_def indices_part_000_def sizeof_GLuint_def)
  show ?thesis
    by (simp add: calls_loop_body_main_cpp calls_loop_body_part_000 n
        vertices_main_cpp_def vertices_part_000_def indices_part_000_def)
qed

subsection \<open>Objects left at exit\<close>

text \<open>
  C3. The objects left when \<^verbatim>\<open>main\<close> returns. In both files the two shader
  objects, the vertex array and the buffer \<open>VBO\<close> are gone, and the program object
  (name 3, never passed to a delete call) is still there. In
  \<^verbatim>\<open>src/unnamed/part_000\<close> the element buffer \<open>EBO\<close> (name 6) is still there too.
\<close>

theorem handles_left_at_exit:
  "(\<forall>r s'. main_part_000 d frames = Some (r, s') \<longrightarrow>
      fst (before_loop_part_000 d) = (3, 4, 5, 6)
      \<and> shader_objs s' = Map.empty \<and> vertex_arrays s' = {}
      \<and> buffers s' = {6} \<and> dom (program_objs s') = {3})
   \<and> (\<forall>r s'. main_main_cpp d polls = Some (r, s') \<longrightarrow>
      fst (before_loop_main_cpp d) = (3, 4, 5)
      \<and> shader_objs s' = Map.empty \<and> vertex_arrays s' = {}
      \<and> buffers s' = {} \<and> dom (program_objs s') = {3})"
proof (intro conjI allI impI)
  fix r s'
  assume run: "main_part_000 d frames = Some (r, s')"
  show "fst (before_loop_part_000 d) = (3, 4, 5, 6)"
    by (rule fst_before_loop_part_000)
  from handles_at_exit_part_000 [OF run]
  show "shader_objs s' = Map.empty" "vertex_arrays s' = {}" "buffers s' = {6}"
    "dom (program_objs s') = {3}"
    by simp_all
next
  fix r s'
  assume run: "main_main_cpp d polls = Some (r, s')"
  show "fst (before_loop_main_cpp d) = (3, 4, 5)"
    by (rule fst_before_loop_main_cpp)
  from handles_at_exit_main_cpp [OF run]
  show "shader_objs s' = Map.empty" "vertex_arrays s' = {}" "buffers s' = {}"
    "dom (program_objs s') = {3}"
    by simp_all
qed

theorem handles_left_at_exit_witness:
  "(\<exists>r s'. main_part_000 plain_driver two_frames = Some (r, s')
      \<and> buffers s' = {6} \<and> dom (program_objs s') = {3})
   \<and> (\<exists>r s'. main_main_cpp plain_driver [[escape_press]] = Some (r, s')
      \<and> buffers s' = {} \<and> dom (program_objs s') = {3})"
proof -
  note inst = handles_left_at_exit [of plain_driver two_frames "[[escape_press]]"]
  have "main_part_000 plain_driver two_frames \<noteq> None"
    by (simp add: main_part_000_None two_frames_close)
  then obtain r1 s1 where run1: "main_part_000 plain_driver two_frames = Some (r1, s1)"
    by auto
  have "main_main_cpp plain_driver [[escape_press]] \<noteq> None"
    by (simp add: main_main_cpp_None escape_press_def)
  then obtain r2 s2 where run2: "main_main_cpp plain_driver [[escape_press]] = Some (r2, s2)"
    by auto
  from inst run1 have a: "buffers s1 = {6} \<and> dom (program_objs s1) = {3}"
    by simp
  from inst run2 have b: "buffers s2 = {} \<and> dom (program_objs s2) = {3}"
    by simp
  from run1 a have c: "\<exists>r s'. main_part_000 plain_driver two_frames = Some (r, s')
      \<and> buffers s' = {6} \<and> dom (program_objs s') = {3}"
    by (intro exI conjI) auto
  from run2 b have e: "\<exists>r s'. main_main_cpp plain_driver [[escape_press]] = Some (r, s')
      \<and> buffers s' = {} \<and> dom (program_objs s') = {3}"
    by (intro exI conjI) auto
  from c e show ?thesis ..
qed

subsection \<open>Uniform location\<close>

text \<open>
  C4, as the code has it. \<^verbatim>\<open>src/unnamed/part_000\<close> keeps no table of uniform
  locations: the loop body calls \<^verbatim>\<open>glGetUniformLocation(shaderProgram, "ourColor")\<close>
  in every iteration. \<^verbatim>\<open>main\<close> returns exactly when a frame requests the close,
  and when it returns after the iterations for frames 0 to \<open>k\<close>, the log holds
  \<open>k + 1\<close> polls and \<open>k + 1\<close> location queries.
\<close>

theorem location_queried_every_frame:
  "(main_part_000 d frames \<noteq> None) = list_ex close_requested frames
   \<and> (\<forall>r s'. main_part_000 d frames = Some (r, s') \<longrightarrow>
        (\<exists>k<length frames. close_requested (frames ! k)
           \<and> \<not> list_ex close_requested (take k frames)
           \<and> length (filter (\<lambda>c. c = GlfwPollEvents) (calls s')) = Suc k
           \<and> length (filter (\<lambda>c. c = GlGetUniformLocation 3 ''ourColor'') (calls s')) = Suc k))"
proof (intro conjI allI impI)
  show "(main_part_000 d frames \<noteq> None) = list_ex close_requested frames"
    by (simp add: main_part_000_None)
next
  fix r s'
  assume "main_part_000 d frames = Some (r, s')"
  then show "\<exists>k<length frames. close_requested (frames ! k)
           \<and> \<not> list_ex close_requested (take k frames)
           \<and> length (filter (\<lambda>c. c = GlfwPollEvents) (calls s')) = Suc k
           \<and> length (filter (\<lambda>c. c = GlGetUniformLocation 3 ''ourColor'') (calls s')) = Suc k"
    by (rule location_queries_part_000)
qed

theorem location_queried_every_frame_witness:
  "list_ex close_requested two_frames
   \<and> (\<exists>r s'. main_part_000 plain_driver two_frames = Some (r, s')
        \<and> length (filter (\<lambda>c. c = GlfwPollEvents) (calls s')) = 2
        \<and> length (filter (\<lambda>c. c = GlGetUniformLocation 3 ''ourColor'') (calls s')) = 2)"
proof -
  note inst = location_queried_every_frame [of plain_driver two_frames]
  have req: "list_ex close_requested two_frames"
    by (rule two_frames_close)
  with inst have "main_part_000 plain_driver two_frames \<noteq> None"
    by simp
  then obtain r s' where run: "main_part_000 plain_driver two_frames = Some (r, s')"
    by auto
  with inst obtain k where k: "k < length two_frames" "close_requested (two_frames ! k)"
    "length (filter (\<lambda>c. c = GlfwPollEvents) (calls s')) = Suc k"
    "length (filter (\<lambda>c. c = GlGetUniformLocation 3 ''ourColor'') (calls s')) = Suc k"
    by blast
  have "k \<noteq> 0"
  proof
    assume "k = 0"
    with k(2) two_frames_close(2) show False by simp
  qed
  with k(1) have "k = 1"
    by (simp add: two_frames_close(3))
  with k(3,4) run req show ?thesis by auto
qed

text \<open>
  The claim as first stated (the query is issued at most once in a run) fails: the
  run of two frames issues it twice.
\<close>

theorem location_memoized_counterexample:
  "map_option (\<lambda>rs. length (filter (\<lambda>c. c = GlGetUniformLocation 3 ''ourColor'') (calls (snd rs))))
     (main_part_000 plain_driver two_frames) = Some 2"
proof -
  have "main_part_000 plain_driver two_frames \<noteq> None"
    by (simp add: main_part_000_None two_frames_close)
  then obtain r s' where run: "main_part_000 plain_driver two_frames = Some (r, s')"
    by auto
  from location_queries_part_000 [OF run] obtain k where k: "k < length two_frames"
      "close_requested (two_frames ! k)"
      "length (filter (\<lambda>c. c = GlGetUniformLocation 3 ''ourColor'') (calls s')) = Suc k"
    by blast
  have "k \<noteq> 0"
  proof
    assume "k = 0"
    with k(2) two_frames_close(2) show False by simp
  qed
  with k(1) have "k = 1"
    by (simp add: two_frames_close(3))
  with k(3) run show ?thesis by simp
qed

subsection \<open>Leaving the loop\<close>

text \<open>
  C5. In every run of \<^verbatim>\<open>src/unnamed/part_000\<close> that returns, the clean-up issues
  \<^verbatim>\<open>glDeleteVertexArrays\<close> for \<open>VAO\<close> (name 4), \<^verbatim>\<open>glDeleteBuffers\<close> for \<open>VBO\<close>
  (name 5) and \<^verbatim>\<open>glfwTerminate\<close> once each, as the last three calls of the log.
  The second buffer handle, \<open>EBO\<close> (name 6), is never passed to
  \<^verbatim>\<open>glDeleteBuffers\<close>: the log holds no such call, and the buffer is still in its
  table when \<^verbatim>\<open>main\<close> returns.
\<close>

theorem element_buffer_outlives_clean_up:
  "\<forall>r s'. main_part_000 d frames = Some (r, s') \<longrightarrow>
      fst (before_loop_part_000 d) = (3, 4, 5, 6)
      \<and> (\<exists>pre. calls s' = pre @ [GlDeleteVertexArrays 4, GlDeleteBuffers 5, GlfwTerminate])
      \<and> length (filter (\<lambda>c. c = GlDeleteVertexArrays 4) (calls s')) = 1
      \<and> length (filter (\<lambda>c. c = GlDeleteBuffers 5) (calls s')) = 1
      \<and> length (filter (\<lambda>c. c = GlfwTerminate) (calls s')) = 1
      \<and> length (filter (\<lambda>c. c = GlDeleteBuffers 6) (calls s')) = 0
      \<and> 6 \<in> buffers s'"
proof (intro allI impI)
  fix r s'
  assume run: "main_part_000 d frames = Some (r, s')"
  with exit_log_part_000 [of d frames] obtain pre where pre:
      "calls s' = pre @ [GlfwSwapBuffers, GlfwWindowShouldClose,
                  GlDeleteVertexArrays 4, GlDeleteBuffers 5, GlfwTerminate]"
      "filter cleanup_call pre = []"
    by blast
  note none = no_cleanup_filter [OF pre(2)]
  have a: "filter (\<lambda>c. c = GlDeleteVertexArrays 4) pre = []"
    and b: "filter (\<lambda>c. c = GlDeleteBuffers 5) pre = []"
    and c: "filter (\<lambda>c. c = GlfwTerminate) pre = []"
    and e: "filter (\<lambda>c. c = GlDeleteBuffers 6) pre = []"
    by (simp_all add: none)
  have tail: "\<exists>pre'. calls s' = pre' @ [GlDeleteVertexArrays 4, GlDeleteBuffers 5, GlfwTerminate]"
    by (rule exI [of _ "pre @ [GlfwSwapBuffers, GlfwWindowShouldClose]"]) (simp add: pre(1))
  have left: "6 \<in> buffers s'"
    using handles_at_exit_part_000 [OF run] by simp
  show "fst (before_loop_part_000 d) = (3, 4, 5, 6)
      \<and> (\<exists>pre. calls s' = pre @ [GlDeleteVertexArrays 4, GlDeleteBuffers 5, GlfwTerminate])
      \<and> length (filter (\<lambda>c. c = GlDeleteVertexArrays 4) (calls s')) = 1
      \<and> length (filter (\<lambda>c. c = GlDeleteBuffers 5) (calls s')) = 1
      \<and> length (filter (\<lambda>c. c = GlfwTerminate) (calls s')) = 1
      \<and> length (filter (\<lambda>c. c = GlDeleteBuffers 6) (calls s')) = 0
      \<and> 6 \<in> buffers s'"
    using tail left by (simp add: pre(1) a b c e fst_before_loop_part_000)
qed

theorem element_buffer_outlives_clean_up_witness:
  "\<exists>r s'. main_part_000 plain_driver two_frames = Some (r, s')
      \<and> length (filter (\<lambda>c. c = GlDeleteBuffers 5) (calls s')) = 1
      \<and> length (filter (\<lambda>c. c = GlDeleteBuffers 6) (calls s')) = 0
      \<and> 6 \<in> buffers s'"
proof -
  note inst = element_buffer_outlives_clean_up [of plain_driver two_frames]
  have "main_part_000 plain_driver two_frames \<noteq> None"
    by (simp add: main_part_000_None two_frames_close)
  then obtain r s' where run: "main_part_000 plain_driver two_frames = Some (r, s')"
    by auto
  with inst have "length (filter (\<lambda>c. c = GlDeleteBuffers 5) (calls s')) = 1
      \<and> length (filter (\<lambda>c. c = GlDeleteBuffers 6) (calls s')) = 0
      \<and> 6 \<in> buffers s'"
    by simp
  with run show ?thesis
    by (intro exI conjI) auto
qed

subsection \<open>The animated value\<close>




subsection \<open>Bindings\<close>

text \<open>
  C7. After the set-up sequence of \<^verbatim>\<open>src/unnamed/part_000\<close>, from any context, the
  vertex-array binding and the array-buffer binding are the null name. The loop
  body leaves the vertex-array binding null and does not change the array-buffer
  binding. So both are null at the end of every iteration, however many
  iterations have run since \<^verbatim>\<open>main\<close> entered the loop.
\<close>

theorem binding_discipline_part_000:
  "vertex_array_binding (snd (setup_buffers_part_000 s)) = 0
   \<and> array_buffer_binding (snd (setup_buffers_part_000 s)) = 0
   \<and> vertex_array_binding (loop_body_part_000 d p vao f s) = 0
   \<and> array_buffer_binding (loop_body_part_000 d p vao f s) = array_buffer_binding s
   \<and> vertex_array_binding
        (run_frames_part_000 d p vao frames (snd (before_loop_part_000 d))) = 0
   \<and> array_buffer_binding
        (run_frames_part_000 d p vao frames (snd (before_loop_part_000 d))) = 0"
  by (simp add: setup_buffers_part_000_frame loop_body_part_000_frame
      vertex_array_binding_run_frames_part_000 run_frames_part_000_frame
      before_loop_part_000_state)

subsection \<open>The order of an iteration\<close>

text \<open>
  C8, as the code has it. The log one iteration adds, in each file.
  \<^verbatim>\<open>src/unnamed/part_000\<close>: \<^verbatim>\<open>glfwPollEvents\<close> (followed by the calls of the
  callbacks it runs), \<^verbatim>\<open>glfwGetTime\<close>, \<^verbatim>\<open>glGetUniformLocation\<close>, \<^verbatim>\<open>glUseProgram\<close>,
  \<^verbatim>\<open>glUniform4f\<close>, \<^verbatim>\<open>glClearColor\<close>, \<^verbatim>\<open>glClear\<close> of colour, depth and stencil,
  \<^verbatim>\<open>glUseProgram\<close> again, \<^verbatim>\<open>glBindVertexArray\<close> of \<open>VAO\<close>, \<^verbatim>\<open>glDrawElements\<close>,
  \<^verbatim>\<open>glBindVertexArray\<close> of 0, \<^verbatim>\<open>glfwSwapBuffers\<close>.
  \<^verbatim>\<open>src/main.cpp\<close> computes no frame state and pushes no uniform, and it
  activates the program after the clear: \<^verbatim>\<open>glfwPollEvents\<close>, \<^verbatim>\<open>glClearColor\<close>,
  \<^verbatim>\<open>glClear\<close>, \<^verbatim>\<open>glUseProgram\<close>, \<^verbatim>\<open>glBindVertexArray\<close> of \<open>VAO\<close>, \<^verbatim>\<open>glDrawArrays\<close>,
  \<^verbatim>\<open>glBindVertexArray\<close> of 0, \<^verbatim>\<open>glfwSwapBuffers\<close>.
  In each file the order is the same in every iteration.
\<close>

theorem iteration_order:
  "(\<exists>cb. calls (loop_body_part_000 d p vao f s) =
       calls s @ [GlfwPollEvents] @ cb @
       [GlfwGetTime, GlGetUniformLocation p ''ourColor'', GlUseProgram p,
        GlUniform4f (fst (glGetUniformLocation d p ''ourColor'' s))
          (greenValue d (to_float (now f))) (greenValue d (to_float (now f)))
          (greenValue d (to_float (now f))) 1,
        GlClearColor (to_float 0.529) (to_float 0.808) (to_float 0.980) 1,
        GlClear [GL_COLOR_BUFFER_BIT, GL_DEPTH_BUFFER_BIT, GL_STENCIL_BUFFER_BIT],
        GlUseProgram p, GlBindVertexArray vao,
        GlDrawElements GL_TRIANGLES sizeof_indices_part_000 GL_UNSIGNED_INT 0,
        GlBindVertexArray 0, GlfwSwapBuffers]
     \<and> list_all callback_call cb)
   \<and> (\<exists>cb. calls (loop_body_main_cpp p vao es s) =
       calls s @ [GlfwPollEvents] @ cb @
       [GlClearColor (to_float 0.529) (to_float 0.808) (to_float 0.980) 1,
        GlClear [GL_COLOR_BUFFER_BIT, GL_DEPTH_BUFFER_BIT, GL_STENCIL_BUFFER_BIT],
        GlUseProgram p, GlBindVertexArray vao, GlDrawArrays GL_TRIANGLES 0 3,
        GlBindVertexArray 0, GlfwSwapBuffers]
     \<and> list_all callback_call cb)"
proof -
  obtain c1 where c1: "calls (glfwPollEvents (events f) s) = calls s @ GlfwPollEvents # c1"
      "list_all callback_call c1"
    using calls_glfwPollEvents by blast
  obtain c2 where c2: "calls (glfwPollEvents es s) = calls s @ GlfwPollEvents # c2"
      "list_all callback_call c2"
    using calls_glfwPollEvents by blast
  have "calls (loop_body_part_000 d p vao f s) =
       calls s @ [GlfwPollEvents] @ c1 @
       [GlfwGetTime, GlGetUniformLocation p ''ourColor'', GlUseProgram p,
        GlUniform4f (fst (glGetUniformLocation d p ''ourColor'' s))
          (greenValue d (to_float (now f))) (greenValue d (to_float (now f)))
          (greenValue d (to_float (now f))) 1,
        GlClearColor (to_float 0.529) (to_float 0.808) (to_float 0.980) 1,
        GlClear [GL_COLOR_BUFFER_BIT, GL_DEPTH_BUFFER_BIT, GL_STENCIL_BUFFER_BIT],
        GlUseProgram p, GlBindVertexArray vao,
        GlDrawElements GL_TRIANGLES sizeof_indices_part_000 GL_UNSIGNED_INT 0,
        GlBindVertexArray 0, GlfwSwapBuffers]"
    by (simp add: calls_loop_body_part_000 c1)
  moreover have "calls (loop_body_main_cpp p vao es s) =
       calls s @ [GlfwPollEvents] @ c2 @
       [GlClearColor (to_float 0.529) (to_float 0.808) (to_float 0.980) 1,
        GlClear [GL_COLOR_BUFFER_BIT, GL_DEPTH_BUFFER_BIT, GL_STENCIL_BUFFER_BIT],
        GlUseProgram p, GlBindVertexArray vao, GlDrawArrays GL_TRIANGLES 0 3,
        GlBindVertexArray 0, GlfwSwapBuffers]"
    by (simp add: calls_loop_body_main_cpp c2)
  ultimately show ?thesis
    using c1(2) c2(2) by blast
qed

text \<open>
  The claim as first stated (every iteration computes the frame state, then
  activates the program and pushes the uniform, then clears) fails for
  \<^verbatim>\<open>src/main.cpp\<close>: an iteration with no pending event, from the initial context.
\<close>

theorem iteration_order_counterexample:
  "calls (loop_body_main_cpp 3 4 [] (start 640 480)) =
     [GlfwPollEvents,
      GlClearColor (to_float 0.529) (to_float 0.808) (to_float 0.980) 1,
      GlClear [GL_COLOR_BUFFER_BIT, GL_DEPTH_BUFFER_BIT, GL_STENCIL_BUFFER_BIT],
      GlUseProgram 3, GlBindVertexArray 4, GlDrawArrays GL_TRIANGLES 0 3,
      GlBindVertexArray 0, GlfwSwapBuffers]"
  by (simp add: calls_loop_body_main_cpp glfwPollEvents_def issue_def start_def)

subsection \<open>The resize callback\<close>

text \<open>
  C9. A second call of \<open>window_size_callback\<close> with the same width and height
  changes nothing but the log, which gains the second call's size query and its
  \<^verbatim>\<open>glViewport\<close> call with the same rectangle. The viewport, \<open>WIDTH\<close> and \<open>HEIGHT\<close>
  are what the first call left; the tables of vertex arrays and buffers and the
  supply of names are those from before the first call. The same holds for one
  window-size event delivered twice.
\<close>

theorem window_size_callback_idempotent:
  "window_size_callback w h (window_size_callback w h s) =
     (window_size_callback w h s)
       \<lparr>calls := calls (window_size_callback w h s) @
          [GlfwGetFramebufferSize,
           GlViewport 0 0 (fst (framebuffer_size s)) (snd (framebuffer_size s))]\<rparr>
   \<and> viewport (window_size_callback w h (window_size_callback w h s)) =
       viewport (window_size_callback w h s)
   \<and> buffers (window_size_callback w h (window_size_callback w h s)) = buffers s
   \<and> vertex_arrays (window_size_callback w h (window_size_callback w h s)) = vertex_arrays s
   \<and> fresh_name (window_size_callback w h (window_size_callback w h s)) = fresh_name s
   \<and> deliver (WindowSize w h fw fh) (deliver (WindowSize w h fw fh) s) =
       (deliver (WindowSize w h fw fh) s)
         \<lparr>calls := calls (deliver (WindowSize w h fw fh) s) @
            [GlfwGetFramebufferSize, GlViewport 0 0 fw fh]\<rparr>"
  by (simp add: window_size_callback_eq)

subsection \<open>The key callback\<close>

text \<open>
  C10. A call of \<open>key_callback\<close> whose key and action are not (escape, press)
  returns the context it was given: the close flag, the globals, the OpenGL state
  and the call log are all unchanged. Another key pressed, and the escape key
  released or repeated, are such calls.
\<close>

theorem key_callback_frame:
  assumes "\<not> (key = GLFW_KEY_ESCAPE \<and> action = GLFW_PRESS)"
  shows "key_callback key scancode action mode s = s"
  by (simp add: key_callback_def assms)

theorem key_callback_frame_witness:
  "\<not> (GLFW_KEY_ESCAPE = GLFW_KEY_ESCAPE \<and> GLFW_RELEASE = GLFW_PRESS)
   \<and> (\<forall>s. key_callback GLFW_KEY_ESCAPE 9 GLFW_RELEASE 0 s = s)"
proof -
  have h: "\<not> (GLFW_KEY_ESCAPE = GLFW_KEY_ESCAPE \<and> GLFW_RELEASE = GLFW_PRESS)"
    by (simp add: GLFW_RELEASE_def GLFW_PRESS_def)
  show ?thesis using h key_callback_frame [OF h] by simp
qed

end
